theory Spec2Isabelle
  imports Main "HOL-Library.Sublist"
begin

text \<open>
  CodeBanter is an editor extension: a message router between a browser UI and the editor,
  with handlers that read, create and modify files, keep a baseline for diffs, render
  previews, and turn a language model's response into file operations. This theory embeds
  the extension's one source file, function by function and under the names it uses there,
  and proves what the handlers do. The editor's API, Node's \<open>path\<close> and \<open>fs\<close> modules
  and the WebSocket server are modelled as far as the handlers use them.
\<close>

section \<open>Text: characters, trimming, replacing\<close>

text \<open>
  JavaScript strings are modelled as \<^typ>\<open>string\<close>: one \<^typ>\<open>char\<close> per code unit, for
  the code units below 256. The character classes of the regular expressions and of
  \<open>String.prototype.trim\<close> are written out for that range.
\<close>

definition is_space :: "char \<Rightarrow> bool" where
  \<comment> \<open>\<open>\s\<close>, and the characters \<open>trim\<close> removes: TAB, LF, VT, FF, CR, SP, NBSP\<close>
  "is_space c = (c \<in> set [CHR 0x09, CHR 0x0A, CHR 0x0B, CHR 0x0C, CHR 0x0D, CHR 0x20, CHR 0xA0])"

definition is_word :: "char \<Rightarrow> bool" where
  \<comment> \<open>\<open>\w\<close>: \<open>[A-Za-z0-9_]\<close>\<close>
  "is_word c = (let n = of_char c :: nat in
     (65 \<le> n \<and> n \<le> 90) \<or> (97 \<le> n \<and> n \<le> 122) \<or> (48 \<le> n \<and> n \<le> 57) \<or> n = 95)"

definition is_line_terminator :: "char \<Rightarrow> bool" where
  "is_line_terminator c = (c = CHR 0x0A \<or> c = CHR 0x0D)"

definition trim :: "string \<Rightarrow> string" where
  "trim s = rev (dropWhile is_space (rev (dropWhile is_space s)))"

fun replace_all :: "char \<Rightarrow> string \<Rightarrow> string \<Rightarrow> string" where
  \<comment> \<open>\<open>text.replace(/c/g, r)\<close> for a one-character pattern\<close>
  "replace_all c r [] = []"
| "replace_all c r (x # xs) = (if x = c then r @ replace_all c r xs else x # replace_all c r xs)"

fun replace_first :: "string \<Rightarrow> string \<Rightarrow> string \<Rightarrow> string" where
  \<comment> \<open>\<open>text.replace(p, r)\<close> for a string pattern \<open>p\<close>: the first occurrence only\<close>
  "replace_first p r [] = (if p = [] then r else [])"
| "replace_first p r (x # xs) =
     (if prefix p (x # xs) then r @ drop (length p) (x # xs) else x # replace_first p r xs)"

fun to_lower_char :: "char \<Rightarrow> char" where
  \<comment> \<open>\<open>A\<close> to \<open>Z\<close>, and the capital letters of Latin-1 (192 to 222 but for the sign at 215)\<close>
  "to_lower_char c =
     (let n = of_char c :: nat
      in if (65 \<le> n \<and> n \<le> 90) \<or> (192 \<le> n \<and> n \<le> 222 \<and> n \<noteq> 215) then char_of (n + 32) else c)"

definition toLowerCase :: "string \<Rightarrow> string" where
  "toLowerCase s = map to_lower_char s"

section \<open>Regular expressions with backtracking\<close>

text \<open>
  The three file patterns of \<open>processAiResponseForFileOperations\<close> use literals, character
  classes, greedy and lazy repetition, alternation, two capture groups, a lookahead and
  \<open>$\<close>. The matcher returns every way a pattern can match at the head of the text, in
  the order in which a backtracking engine tries them, so the head of the list is the match
  JavaScript reports. A match state is the text still to read and the captures so far.
\<close>

datatype cclass =
    CChar char          \<comment> \<open>a literal character\<close>
  | CSpace              \<comment> \<open>\<open>\s\<close>\<close>
  | CWord               \<comment> \<open>\<open>\w\<close>\<close>
  | CDot                \<comment> \<open>\<open>.\<close>: anything but a line terminator\<close>
  | CUnion cclass cclass  \<comment> \<open>\<open>[ab]\<close>\<close>
  | CNot cclass         \<comment> \<open>the complement, \<open>\S\<close> being \<open>CNot CSpace\<close>\<close>

fun cc_match :: "cclass \<Rightarrow> char \<Rightarrow> bool" where
  "cc_match (CChar c) x = (x = c)"
| "cc_match CSpace x = is_space x"
| "cc_match CWord x = is_word x"
| "cc_match CDot x = (\<not> is_line_terminator x)"
| "cc_match (CUnion a b) x = (cc_match a x \<or> cc_match b x)"
| "cc_match (CNot a) x = (\<not> cc_match a x)"

datatype regex =
    Atom cclass
  | Eps
  | Seq regex regex
  | Alt regex regex
  | Rep regex nat bool    \<comment> \<open>at least \<open>n\<close> times, unbounded; \<open>True\<close> greedy, \<open>False\<close> lazy\<close>
  | Opt regex             \<comment> \<open>\<open>r?\<close>, greedy\<close>
  | Group nat regex       \<comment> \<open>capture group number \<open>n\<close>\<close>
  | Lookahead regex       \<comment> \<open>\<open>(?=r)\<close>\<close>
  | EndOfInput            \<comment> \<open>\<open>$\<close> without the multiline flag\<close>

type_synonym captures = "nat \<rightharpoonup> string"
type_synonym mstate = "string \<times> captures"

fun re_size :: "regex \<Rightarrow> nat" where
  "re_size (Atom c) = 1"
| "re_size Eps = 1"
| "re_size (Seq a b) = Suc (re_size a + re_size b)"
| "re_size (Alt a b) = Suc (re_size a + re_size b)"
| "re_size (Rep r n g) = Suc (re_size r + n)"
| "re_size (Opt r) = Suc (re_size r)"
| "re_size (Group n r) = Suc (re_size r)"
| "re_size (Lookahead r) = Suc (re_size r)"
| "re_size EndOfInput = 1"

definition progress :: "mstate \<Rightarrow> mstate \<Rightarrow> bool" where
  \<comment> \<open>an iteration of a repetition that has met its minimum is rejected when it reads nothing\<close>
  "progress st st' = (length (fst st') < length (fst st))"

function matches :: "regex \<Rightarrow> mstate \<Rightarrow> mstate list" where
  "matches (Atom c) st =
     (case fst st of [] \<Rightarrow> [] | x # xs \<Rightarrow> if cc_match c x then [(xs, snd st)] else [])"
| "matches Eps st = [st]"
| "matches (Seq a b) st = concat (map (matches b) (matches a st))"
| "matches (Alt a b) st = matches a st @ matches b st"
| "matches (Rep r (Suc n) g) st = concat (map (matches (Rep r n g)) (matches r st))"
| "matches (Rep r 0 g) st =
     (let more = concat (map (matches (Rep r 0 g)) (filter (progress st) (matches r st)))
      in if g then more @ [st] else st # more)"
| "matches (Opt r) st = filter (progress st) (matches r st) @ [st]"
| "matches (Group n r) st =
     map (\<lambda>st'. (fst st', (snd st')(n \<mapsto> take (length (fst st) - length (fst st')) (fst st))))
       (matches r st)"
| "matches (Lookahead r) st =
     (case matches r st of [] \<Rightarrow> [] | st' # _ \<Rightarrow> [(fst st, snd st')])"
| "matches EndOfInput st = (if fst st = [] then [st] else [])"
  by pat_completeness auto
termination
  by (relation "inv_image (less_than <*lex*> less_than) (\<lambda>(r, st). (re_size r, length (fst st)))")
     (auto simp: progress_def)

fun lit :: "string \<Rightarrow> regex" where
  "lit [] = Eps"
| "lit [c] = Atom (CChar c)"
| "lit (c # cs) = Seq (Atom (CChar c)) (lit cs)"

fun alts :: "regex list \<Rightarrow> regex" where
  "alts [] = Eps"
| "alts [r] = r"
| "alts (r # rs) = Alt r (alts rs)"

fun seqs :: "regex list \<Rightarrow> regex" where
  "seqs [] = Eps"
| "seqs [r] = r"
| "seqs (r # rs) = Seq r (seqs rs)"

text \<open>
  \<open>RegExp.prototype.exec\<close> on a pattern with the \<open>g\<close> flag: the search starts at
  \<open>lastIndex\<close> and tries every later start, the end of the text included. It yields the
  captures and the new \<open>lastIndex\<close> (the end of the match), or \<open>None\<close> for \<open>null\<close>.
\<close>

function exec :: "regex \<Rightarrow> string \<Rightarrow> nat \<Rightarrow> (captures \<times> nat) option" where
  "exec re s i =
     (if length s < i then None
      else (case matches re (drop i s, Map.empty) of
              st' # _ \<Rightarrow> Some (snd st', length s - length (fst st'))
            | [] \<Rightarrow> exec re s (Suc i)))"
  by pat_completeness auto
termination
  by (relation "measure (\<lambda>(re, s, i). Suc (length s) - i)") auto

declare exec.simps [simp del]

definition backtick3 :: string where
  "backtick3 = [CHR 0x60, CHR 0x60, CHR 0x60]"

definition path_token :: regex where
  \<comment> \<open>\<open>(.*?\.[\w]+)\<close>\<close>
  "path_token = Group 1 (seqs [Rep (Atom CDot) 0 False, Atom (CChar CHR ''.''), Rep (Atom CWord) 1 True])"

definition body_to_fence :: regex where
  \<comment> \<open>\<open>[\s\n]+([\s\S]*?)```\<close>\<close>
  "body_to_fence = seqs [Rep (Atom (CUnion CSpace (CChar CHR 0x0A))) 1 True,
     Group 2 (Rep (Atom (CUnion CSpace (CNot CSpace))) 0 False), lit backtick3]"

definition pattern_comment :: regex where
  \<comment> \<open>\<open>/```(?:js|javascript|html|css|tsx|jsx)?\s*(?:\/\/|<!--)\s*(.*?\.[\w]+)[\s\n]+([\s\S]*?)```/g\<close>\<close>
  "pattern_comment = seqs [lit backtick3,
     Opt (alts [lit ''js'', lit ''javascript'', lit ''html'', lit ''css'', lit ''tsx'', lit ''jsx'']),
     Rep (Atom CSpace) 0 True,
     Alt (lit ''//'') (lit ''<!--''),
     Rep (Atom CSpace) 0 True,
     path_token, body_to_fence]"

definition pattern_fence :: regex where
  \<comment> \<open>\<open>/```(.*?\.[\w]+)[\s\n]+([\s\S]*?)```/g\<close>\<close>
  "pattern_fence = seqs [lit backtick3, path_token, body_to_fence]"

definition pattern_heading :: regex where
  \<comment> \<open>\<open>/#+\s+(.*?\.[\w]+)[\s\n]+([\s\S]*?)(?=#+|$)/g\<close>\<close>
  "pattern_heading = seqs [Rep (Atom (CChar CHR ''#'')) 1 True, Rep (Atom CSpace) 1 True,
     path_token, Rep (Atom (CUnion CSpace (CChar CHR 0x0A))) 1 True,
     Group 2 (Rep (Atom (CUnion CSpace (CNot CSpace))) 0 False),
     Lookahead (Alt (Rep (Atom (CChar CHR ''#'')) 1 True) EndOfInput)]"

definition filePatterns :: "regex list" where
  "filePatterns = [pattern_comment, pattern_fence, pattern_heading]"

section \<open>Paths\<close>

text \<open>
  The functions of Node's \<open>path\<close> module that the extension calls, in their POSIX form
  (\<open>path.sep\<close> is \<open>/\<close>).
\<close>

definition sep :: char where
  "sep = CHR ''/''"

fun split_on :: "char \<Rightarrow> string \<Rightarrow> string list" where
  \<comment> \<open>\<open>s.split(c)\<close>: the empty text splits into one empty part\<close>
  "split_on c [] = [[]]"
| "split_on c (x # xs) =
     (case split_on c xs of
        p # ps \<Rightarrow> if x = c then [] # p # ps else (x # p) # ps
      | [] \<Rightarrow> [[x]])"

definition join_with :: "char \<Rightarrow> string list \<Rightarrow> string" where
  "join_with c ps = (case ps of [] \<Rightarrow> [] | p # qs \<Rightarrow> foldl (\<lambda>acc q. acc @ [c] @ q) p qs)"

fun normalize_step :: "bool \<Rightarrow> string list \<Rightarrow> string \<Rightarrow> string list" where
  \<comment> \<open>one segment of \<open>normalizeString\<close>; the stack holds the kept segments, last first\<close>
  "normalize_step allowAboveRoot stack seg =
     (if seg = [] \<or> seg = ''.'' then stack
      else if seg = ''..'' then
        (case stack of
           seg' # rest \<Rightarrow> if seg' \<noteq> ''..'' then rest
                         else if allowAboveRoot then seg # stack else stack
         | [] \<Rightarrow> if allowAboveRoot then [seg] else [])
      else seg # stack)"

definition normalizeString :: "string \<Rightarrow> bool \<Rightarrow> string" where
  "normalizeString p allowAboveRoot =
     join_with sep (rev (foldl (normalize_step allowAboveRoot) [] (split_on sep p)))"

definition isAbsolute :: "string \<Rightarrow> bool" where
  "isAbsolute p = (p \<noteq> [] \<and> hd p = sep)"

definition normalize :: "string \<Rightarrow> string" where
  "normalize p =
     (if p = [] then ''.''
      else let absolute = isAbsolute p; trailingSeparator = (last p = sep);
               q = normalizeString p (\<not> absolute)
           in if q = [] then (if absolute then ''/'' else if trailingSeparator then ''./'' else ''.'')
              else (if absolute then ''/'' else []) @ q @ (if trailingSeparator then ''/'' else []))"

definition path_join :: "string list \<Rightarrow> string" where
  \<comment> \<open>\<open>path.join(...args)\<close>: empty arguments are left out\<close>
  "path_join args =
     (let joined = join_with sep (filter (\<lambda>x. x \<noteq> []) args)
      in if joined = [] then ''.'' else normalize joined)"

definition join :: "string \<Rightarrow> string \<Rightarrow> string" where
  "join a b = path_join [a, b]"

definition basename :: "string \<Rightarrow> string" where
  "basename p =
     (let q = dropWhile (\<lambda>c. c = sep) (rev p) in rev (takeWhile (\<lambda>c. c \<noteq> sep) q))"

definition extname :: "string \<Rightarrow> string" where
  \<comment> \<open>from the last dot of the last segment; none for a leading dot and for \<open>..\<close>\<close>
  "extname p =
     (let b = basename p;
          suf = rev (takeWhile (\<lambda>c. c \<noteq> CHR ''.'') (rev b));
          pre = take (length b - length suf - 1) b
      in if CHR ''.'' \<notin> set b then []
         else if pre = [] then []
         else if pre = ''.'' \<and> suf = [] then []
         else CHR ''.'' # suf)"

definition dirname :: "string \<Rightarrow> string" where
  "dirname p =
     (if p = [] then ''.''
      else let hasRoot = (hd p = sep);
               r1 = dropWhile (\<lambda>c. c = sep) (rev (tl p));
               r2 = dropWhile (\<lambda>c. c \<noteq> sep) r1
           in if r2 = [] then (if hasRoot then ''/'' else ''.'')
              else if hasRoot \<and> length r2 = 1 then ''//''
              else take (length r2) p)"

definition fsPath :: "string \<Rightarrow> string" where
  \<comment> \<open>\<open>vscode.Uri.file(p).fsPath\<close>: a file URI's path always starts with a slash\<close>
  "fsPath p = (if p = [] then ''/'' else if hd p = sep then p else sep # p)"

section \<open>The extension's state and its surroundings\<close>

text \<open>
  The editor, its file system, the connected clients and the module's own variables make
  up the state every handler reads and returns updated. What a handler sends is returned
  as a list of messages, each with the client it goes to, in the order of the
  \<open>send\<close> calls.
\<close>

datatype node = File string | Directory

record textdoc =
  doc_fsPath :: string
  doc_text :: string
  doc_languageId :: string
  doc_isUntitled :: bool

record folder =
  folder_name :: string
  folder_fsPath :: string

type_synonym client = nat

record world =
  workspaceFolders :: "folder list"
  textDocuments :: "textdoc list"
  activeTextEditor :: "string option"    \<comment> \<open>the path of the active editor's document\<close>
  files :: "string \<rightharpoonup> node"
  originalFileContents :: "string \<rightharpoonup> string"
  devServer :: "unit option"             \<comment> \<open>\<open>null\<close> at start; no statement of the file assigns a server to it\<close>
  clients :: "(client \<times> bool) list"      \<comment> \<open>\<open>wss.clients\<close>, each with \<open>readyState === OPEN\<close>\<close>
  notifications :: "string list"         \<comment> \<open>texts shown by the editor, oldest first\<close>
  spawned :: "string list"               \<comment> \<open>working directory of each dev-server process spawned\<close>

text \<open>
  What the extension calls and does not define. The two identifiers \<open>context\<close>
  (in \<open>renderPreview\<close>) and \<open>g\<close> (in \<open>escapeHtml\<close>) are used where no declaration of
  the file is in scope; whether the surrounding scope binds them is a parameter, and an
  unbound one raises \<open>ReferenceError\<close> when it is evaluated.
\<close>

record env =
  context_bound :: bool
  g_bound :: bool
  llm :: "string \<Rightarrow> string \<Rightarrow> string + string"
    \<comment> \<open>the model call on the system and the user message: the response text, or the message of the error thrown\<close>
  json_pretty :: "string \<Rightarrow> string + string"
    \<comment> \<open>\<open>JSON.stringify(JSON.parse(text), null, 2)\<close>, or the message of the parse error\<close>
  edit_applies :: "string \<Rightarrow> bool"
    \<comment> \<open>what \<open>workspace.applyEdit\<close> resolves to for an edit of this document\<close>
  fs_error :: "string \<Rightarrow> string"
    \<comment> \<open>how the error of a failed file-system call on this path prints\<close>

datatype outmsg =
    MChat string "bool option" "bool option"   \<comment> \<open>message, executeMode, filesProcessed\<close>
  | MWorkspaceInfo "folder list" "(string \<times> string \<times> string \<times> bool) list"
      "(string \<times> string \<times> string \<times> string) option"
  | MFileContent string string string string   \<comment> \<open>path, name, content, language\<close>
  | MFileModified string
  | MFileCreated string
  | MPreview string string string              \<comment> \<open>path, name, content; previewType is always html\<close>
  | MDiff string string string string          \<comment> \<open>path, name, originalContent, currentContent\<close>
  | MError string
  | MFileChanged string string
  | MActiveEditorChanged string string
  | MDevServerStarted string

type_synonym sent = "(client \<times> outmsg) list"

definition find_doc :: "world \<Rightarrow> string \<Rightarrow> textdoc option" where
  \<comment> \<open>\<open>workspace.textDocuments.find(doc => doc.uri.fsPath === filePath)\<close>\<close>
  "find_doc w filePath = List.find (\<lambda>d. doc_fsPath d = filePath) (textDocuments w)"

definition stat :: "world \<Rightarrow> string \<Rightarrow> bool" where
  \<comment> \<open>\<open>workspace.fs.stat(Uri.file(p))\<close> resolves; it rejects where nothing exists\<close>
  "stat w p = (files w (fsPath p) \<noteq> None)"

definition readFile :: "world \<Rightarrow> string \<Rightarrow> string option" where
  \<comment> \<open>\<open>workspace.fs.readFile\<close>, decoded; \<open>None\<close> where it rejects\<close>
  "readFile w p = (case files w (fsPath p) of Some (File text) \<Rightarrow> Some text | _ \<Rightarrow> None)"

definition writeFile :: "world \<Rightarrow> string \<Rightarrow> string \<Rightarrow> world option" where
  \<comment> \<open>\<open>workspace.fs.writeFile\<close>: creates or overwrites; rejects on a directory\<close>
  "writeFile w p text =
     (if files w (fsPath p) = Some Directory then None
      else Some (w\<lparr>files := (files w)(fsPath p \<mapsto> File text)\<rparr>))"

definition createDirectory :: "world \<Rightarrow> string \<Rightarrow> world" where
  "createDirectory w p = w\<lparr>files := (files w)(fsPath p \<mapsto> Directory)\<rparr>"

definition showMessage :: "string \<Rightarrow> world \<Rightarrow> world" where
  "showMessage text w = w\<lparr>notifications := notifications w @ [text]\<rparr>"

definition set_original :: "string \<Rightarrow> string \<Rightarrow> world \<Rightarrow> world" where
  \<comment> \<open>\<open>originalFileContents.set(filePath, text)\<close>\<close>
  "set_original filePath text w = w\<lparr>originalFileContents := (originalFileContents w)(filePath \<mapsto> text)\<rparr>"

definition current_text :: "world \<Rightarrow> string \<Rightarrow> string option" where
  \<comment> \<open>the open document's text, else the file's; \<open>None\<close> where the read throws\<close>
  "current_text w filePath =
     (case find_doc w filePath of Some d \<Rightarrow> Some (doc_text d) | None \<Rightarrow> readFile w filePath)"

section \<open>Reading a file\<close>

definition getFileContent :: "client \<Rightarrow> string \<Rightarrow> world \<Rightarrow> world \<times> sent" where
  "getFileContent ws filePath w =
     (case find_doc w filePath of
        None \<Rightarrow>
          (case readFile w filePath of
             Some text \<Rightarrow>
               (set_original filePath text w,
                [(ws, MFileContent filePath (basename filePath) text (drop 1 (extname filePath)))])
           | None \<Rightarrow>
               (w, [(ws, MError (''Error getting file content: Error: Failed to read file: '' @ filePath))]))
      | Some d \<Rightarrow>
          (set_original filePath (doc_text d) w,
           [(ws, MFileContent filePath (basename filePath) (doc_text d) (doc_languageId d))]))"

section \<open>The diff\<close>

definition getFileDiff :: "client \<Rightarrow> string \<Rightarrow> world \<Rightarrow> world \<times> sent" where
  \<comment> \<open>\<open>!originalContent\<close> holds for \<open>undefined\<close> and for the empty text\<close>
  "getFileDiff ws filePath w =
     (case originalFileContents w filePath of
        None \<Rightarrow> (w, [(ws, MError (''Error generating diff: Error: No original content stored for '' @ filePath))])
      | Some originalContent \<Rightarrow>
          if originalContent = [] then
            (w, [(ws, MError (''Error generating diff: Error: No original content stored for '' @ filePath))])
          else
            (case current_text w filePath of
               None \<Rightarrow> (w, [(ws, MError (''Error generating diff: Error: Failed to read current file: '' @ filePath))])
             | Some currentContent \<Rightarrow>
                 (w, [(ws, MDiff filePath (basename filePath) originalContent currentContent)])))"

section \<open>Modifying and creating files\<close>

definition replace_doc_text :: "string \<Rightarrow> string \<Rightarrow> world \<Rightarrow> world" where
  \<comment> \<open>the edit replaces the range from the start to line \<open>lineCount\<close>: the whole text of the document\<close>
  "replace_doc_text filePath text w =
     w\<lparr>textDocuments := map (\<lambda>d. if doc_fsPath d = filePath then d\<lparr>doc_text := text\<rparr> else d) (textDocuments w)\<rparr>"

definition store_original :: "string \<Rightarrow> world \<Rightarrow> world" where
  \<comment> \<open>"Store original content for diff if not already stored"; a failed read is logged and dropped\<close>
  "store_original filePath w =
     (if originalFileContents w filePath \<noteq> None then w
      else (case current_text w filePath of
              Some text \<Rightarrow> set_original filePath text w
            | None \<Rightarrow> w))"

definition modifyFile :: "env \<Rightarrow> client \<Rightarrow> string \<Rightarrow> string \<Rightarrow> string \<Rightarrow> world \<Rightarrow> world \<times> sent" where
  "modifyFile e ws filePath content description w =
     (if \<not> stat w filePath then
        (w, [(ws, MError (''Error modifying file: Error: File does not exist: '' @ filePath))])
      else
        let w1 = store_original filePath w in
        (case find_doc w1 filePath of
           Some d \<Rightarrow>
             if edit_applies e filePath then
               (showMessage (''File modified: '' @ basename filePath @ '' - '' @ description)
                  (replace_doc_text filePath content w1),
                [(ws, MFileModified filePath)])
             else
               (w1, [(ws, MError (''Error modifying file: Error: Failed to apply edit to '' @ filePath))])
         | None \<Rightarrow>
             (case writeFile w1 filePath content of
                None \<Rightarrow> (w1, [(ws, MError (''Error modifying file: '' @ fs_error e (fsPath filePath)))])
              | Some w2 \<Rightarrow>
                  (showMessage (''File modified: '' @ basename filePath @ '' - '' @ description) w2,
                   [(ws, MFileModified filePath)]))))"

datatype probe_error = AlreadyExists string | StatRejected

definition exists_probe :: "world \<Rightarrow> string \<Rightarrow> probe_error + unit" where
  \<comment> \<open>the \<open>try\<close> block of \<open>createFile\<close>: \<open>stat\<close> rejects, or it resolves and the next statement throws\<close>
  "exists_probe w filePath =
     (if stat w filePath then Inl (AlreadyExists (''File already exists: '' @ filePath)) else Inl StatRejected)"

fun make_dirs :: "string list \<Rightarrow> string \<Rightarrow> world \<Rightarrow> world" where
  \<comment> \<open>the loop over \<open>dirPath.split(path.sep)\<close>, with \<open>currentPath\<close> as its second argument\<close>
  "make_dirs [] currentPath w = w"
| "make_dirs (part # parts) currentPath w =
     (if part = [] then make_dirs parts currentPath w
      else let currentPath' = (if currentPath \<noteq> [] then join currentPath part else part)
           in make_dirs parts currentPath'
                (if stat w currentPath' then w else createDirectory w currentPath'))"

definition write_new_file :: "env \<Rightarrow> client \<Rightarrow> string \<Rightarrow> string \<Rightarrow> world \<Rightarrow> world \<times> sent" where
  \<comment> \<open>\<open>createFile\<close> after its first \<open>try\<close> statement: the directories, the write, the acknowledgement\<close>
  "write_new_file e ws filePath content w =
     (let dirPath = dirname filePath;
          w1 = (if stat w dirPath then w else make_dirs (split_on sep dirPath) [] w)
      in case writeFile w1 filePath content of
           None \<Rightarrow> (w1, [(ws, MError (''Error creating file: '' @ fs_error e (fsPath filePath)))])
         | Some w2 \<Rightarrow>
             (showMessage (''File created: '' @ basename filePath) w2, [(ws, MFileCreated filePath)]))"

definition createFile :: "env \<Rightarrow> client \<Rightarrow> string \<Rightarrow> string \<Rightarrow> world \<Rightarrow> world \<times> sent" where
  \<comment> \<open>\<open>catch (error) { }\<close> is empty: whichever error the probe threw, the function goes on\<close>
  "createFile e ws filePath content w =
     (case exists_probe w filePath of
        Inl err \<Rightarrow> write_new_file e ws filePath content w
      | Inr u \<Rightarrow> write_new_file e ws filePath content w)"

definition testFileCreation :: "env \<Rightarrow> client \<Rightarrow> world \<Rightarrow> world \<times> sent" where
  "testFileCreation e ws w =
     (case workspaceFolders w of
        [] \<Rightarrow> (w, [(ws, MError ''No workspace folder is open'')])
      | f # fs \<Rightarrow>
          let testFilePath = join (folder_fsPath f) ''test-file.txt'' in
          (case writeFile w testFilePath ''This is a test file created by CodeBanter.'' of
             Some w1 \<Rightarrow>
               (w1, [(ws, MChat (''Test file created successfully at: '' @ testFilePath) None None)])
           | None \<Rightarrow>
               (w, [(ws, MError (''Error creating test file: '' @ fs_error e (fsPath testFilePath)))])))"

section \<open>Previews\<close>

definition unlines :: "string list \<Rightarrow> string" where
  \<comment> \<open>the lines of a template literal, a line feed between each two\<close>
  "unlines ls = join_with (CHR 0x0A) ls"

datatype thrown = Thrown string string    \<comment> \<open>an error's name and its message\<close>

fun error_text :: "thrown \<Rightarrow> string" where
  \<comment> \<open>how \<open>${error}\<close> prints it\<close>
  "error_text (Thrown name message) = name @ '': '' @ message"

fun error_message :: "thrown \<Rightarrow> string" where
  "error_message (Thrown name message) = message"

text \<open>
  \<open>escapeHtml\<close> chains five \<open>replace\<close> calls. The fourth is written
  \<^verbatim>\<open>.replace(/"//g, '&quot;')\<close>: the regular expression literal ends at the second
  slash, so the first argument is the quotient of \<^verbatim>\<open>/"/\<close> and an identifier
  \<open>g\<close> that the file does not declare. Evaluating it raises \<open>ReferenceError\<close>. Were
  \<open>g\<close> bound (to anything but a BigInt or a Symbol), the quotient would be \<open>NaN\<close> and
  \<open>replace\<close> would look for the text \<open>NaN\<close>, once. The double quote is replaced in
  neither case.
\<close>

definition escapeHtml :: "env \<Rightarrow> string \<Rightarrow> thrown + string" where
  "escapeHtml e text =
     (let t1 = replace_all CHR ''&'' ''&amp;'' text;
          t2 = replace_all CHR ''<'' ''&lt;'' t1;
          t3 = replace_all CHR ''>'' ''&gt;'' t2
      in if \<not> g_bound e then Inl (Thrown ''ReferenceError'' ''g is not defined'')
         else Inr (replace_all (CHR 0x27) ''&#039;'' (replace_first ''NaN'' ''&quot;'' t3)))"

definition devServerPort :: string where
  \<comment> \<open>\<open>3001\<close>, as \<open>toString\<close> and a template print it\<close>
  "devServerPort = ''3001''"

definition react_preview_html :: "string \<Rightarrow> string \<Rightarrow> string" where
  \<open>react_preview_html name port =
     unlines [
       [],
       ''                <!DOCTYPE html>'',
       ''                <html>'',
       ''                <head>'',
       ''                    <title>React Component Preview - '' @ name @ ''</title>'',
       ''                    <style>'',
       ''                        body { margin: 0; padding: 0; height: 100vh; overflow: hidden; }'',
       ''                        iframe { width: 100%; height: 100%; border: none; }'',
       ''                    </style>'',
       ''                </head>'',
       ''                <body>'',
       ''                    <iframe src="http://localhost:'' @ port @ ''" id="devServerFrame"></iframe>'',
       ''                </body>'',
       ''                </html>'',
       ''            '']\<close>

definition css_preview_html :: "string \<Rightarrow> string \<Rightarrow> string" where
  \<open>css_preview_html name content =
     unlines [
       [],
       ''                <!DOCTYPE html>'',
       ''                <html>'',
       ''                <head>'',
       ''                    <title>Preview - '' @ name @ ''</title>'',
       ''                    <style>'',
       ''                        '' @ content,
       ''                    </style>'',
       ''                </head>'',
       ''                <body>'',
       ''                    <div class="preview-container">'',
       ''                        <h1>CSS Preview</h1>'',
       ''                        <p>This is a preview of how the CSS might look applied to basic HTML elements.</p>'',
       ''                        <button>Button Example</button>'',
       ''                        <a href="#">Link Example</a>'',
       ''                        <div class="box">Styled Box</div>'',
       ''                    </div>'',
       ''                </body>'',
       ''                </html>'',
       ''            '']\<close>

definition json_preview_html :: "string \<Rightarrow> string \<Rightarrow> string" where
  \<open>json_preview_html name escaped =
     unlines [
       [],
       ''                    <!DOCTYPE html>'',
       ''                    <html>'',
       ''                    <head>'',
       ''                        <title>JSON Preview - '' @ name @ ''</title>'',
       ''                        <style>'',
       ''                            body {'',
       ''                                margin: 0;'',
       ''                                padding: 20px;'',
       ''                                font-family: 'Courier New', monospace;'',
       ''                                background-color: #f5f5f5;'',
       ''                            }'',
       ''                            pre {'',
       ''                                background-color: #fff;'',
       ''                                border: 1px solid #ddd;'',
       ''                                border-radius: 4px;'',
       ''                                padding: 15px;'',
       ''                                overflow: auto;'',
       ''                                max-height: 90vh;'',
       ''                                white-space: pre-wrap;'',
       ''                            }'',
       ''                            .string { color: #008000; }'',
       ''                            .number { color: #0000ff; }'',
       ''                            .boolean { color: #b22222; }'',
       ''                            .null { color: #808080; }'',
       ''                            .key { color: #a52a2a; }'',
       ''                        </style>'',
       ''                    </head>'',
       ''                    <body>'',
       ''                        <pre id="json-container">'' @ escaped @ ''</pre>'',
       ''                        <script>'',
       ''                            // Simple JSON syntax highlighter'',
       ''                            function syntaxHighlight(json) {'',
       ''                                json = json.replace(/&/g, '&amp;').replace(/<//g, '&lt;').replace(/>/g, '&gt;');'',
       ''                                return json.replace(/("('' @ [CHR 0x5C] @ ''u[a-zA-Z0-9]{4}|'' @ [CHR 0x5C] @ ''[^u]|[^'' @ [CHR 0x5C] @ ''"])*"('' @ [CHR 0x5C] @ ''s*:)?|'' @ [CHR 0x5C] @ ''b(true|false|null)'' @ [CHR 0x5C] @ ''b|-?'' @ [CHR 0x5C] @ ''d+(?:'' @ [CHR 0x5C] @ ''.'' @ [CHR 0x5C] @ ''d*)?(?:[eE][+'' @ [CHR 0x5C] @ ''-]?'' @ [CHR 0x5C] @ ''d+)?)/g, function (match) {'',
       ''                                    var cls = 'number';'',
       ''                                    if (/^"/.test(match)) {'',
       ''                                        if (/:$/.test(match)) {'',
       ''                                            cls = 'key';'',
       ''                                        } else {'',
       ''                                            cls = 'string';'',
       ''                                        }'',
       ''                                    } else if (/true|false/.test(match)) {'',
       ''                                        cls = 'boolean';'',
       ''                                    } else if (/null/.test(match)) {'',
       ''                                        cls = 'null';'',
       ''                                    }'',
       ''                                    return '<span class="' + cls + '">' + match + '</span>';'',
       ''                                });'',
       ''                            }'',
       ''                            '',
       ''                            document.getElementById('json-container').innerHTML = syntaxHighlight(document.getElementById('json-container').textContent);'',
       ''                        </script>'',
       ''                    </body>'',
       ''                    </html>'',
       ''                '']\<close>

definition json_invalid_html :: "string \<Rightarrow> string \<Rightarrow> string \<Rightarrow> string" where
  \<open>json_invalid_html name escaped_message escaped_content =
     unlines [
       [],
       ''                    <!DOCTYPE html>'',
       ''                    <html>'',
       ''                    <head>'',
       ''                        <title>JSON Preview (Invalid) - '' @ name @ ''</title>'',
       ''                        <style>'',
       ''                            body {'',
       ''                                margin: 0;'',
       ''                                padding: 20px;'',
       ''                                font-family: 'Courier New', monospace;'',
       ''                                background-color: #f5f5f5;'',
       ''                            }'',
       ''                            .warning {'',
       ''                                color: #ff0000;'',
       ''                                background-color: #ffe0e0;'',
       ''                                padding: 10px;'',
       ''                                margin-bottom: 15px;'',
       ''                                border-radius: 4px;'',
       ''                            }'',
       ''                            pre {'',
       ''                                background-color: #fff;'',
       ''                                border: 1px solid #ddd;'',
       ''                                border-radius: 4px;'',
       ''                                padding: 15px;'',
       ''                                overflow: auto;'',
       ''                            }'',
       ''                        </style>'',
       ''                    </head>'',
       ''                    <body>'',
       ''                        <div class="warning">Warning: Invalid JSON format - '' @ escaped_message @ ''</div>'',
       ''                        <pre>'' @ escaped_content @ ''</pre>'',
       ''                    </body>'',
       ''                    </html>'',
       ''                '']\<close>

definition index_html :: "string" where
  \<open>index_html =
     unlines [
       [],
       ''<!DOCTYPE html>'',
       ''<html lang="en">'',
       ''<head>'',
       ''    <meta charset="UTF-8">'',
       ''    <meta name="viewport" content="width=device-width, initial-scale=1.0">'',
       ''    <title>CodeBanter Preview</title>'',
       ''</head>'',
       ''<body>'',
       ''    <div id="root"></div>'',
       ''</body>'',
       ''</html>'',
       ''            '']\<close>

definition package_json :: string where
  \<comment> \<open>\<open>JSON.stringify({...}, null, 2)\<close> of the temporary package description\<close>
  \<open>package_json = unlines [
     ''{'',
     ''  "name": "codebanter-preview",'',
     ''  "version": "0.1.0",'',
     ''  "private": true,'',
     ''  "dependencies": {'',
     ''    "react": "^17.0.2",'',
     ''    "react-dom": "^17.0.2"'',
     ''  }'',
     ''}'']\<close>

text \<open>
  \<open>startDevServer\<close> uses Node's synchronous \<open>fs\<close> on the same files: writing needs an
  existing parent directory, and \<open>mkdirSync\<close> with \<open>recursive\<close> creates the missing
  directories of a path from the root down.
\<close>

definition existsSync :: "world \<Rightarrow> string \<Rightarrow> bool" where
  "existsSync w p = (files w p \<noteq> None)"

definition writeFileSync :: "world \<Rightarrow> string \<Rightarrow> string \<Rightarrow> thrown + world" where
  "writeFileSync w p text =
     (if files w p = Some Directory then Inl (Thrown ''Error'' (''EISDIR: illegal operation on a directory, open '' @ [CHR 0x27] @ p @ [CHR 0x27]))
      else if files w (dirname p) \<noteq> Some Directory then Inl (Thrown ''Error'' (''ENOENT: no such file or directory, open '' @ [CHR 0x27] @ p @ [CHR 0x27]))
      else Inr (w\<lparr>files := (files w)(p \<mapsto> File text)\<rparr>))"

fun mkdir_each :: "string list \<Rightarrow> string \<Rightarrow> bool \<Rightarrow> world \<Rightarrow> thrown + world" where
  \<comment> \<open>the directories of a path, outermost first; \<open>rooted\<close> holds while the next one starts at the root\<close>
  "mkdir_each [] cur rooted w = Inr w"
| "mkdir_each (part # parts) cur rooted w =
     (if part = [] then mkdir_each parts cur rooted w
      else let cur' = (if cur = [] \<and> \<not> rooted then part else cur @ [sep] @ part) in
        (case files w cur' of
           None \<Rightarrow> mkdir_each parts cur' rooted (w\<lparr>files := (files w)(cur' \<mapsto> Directory)\<rparr>)
         | Some Directory \<Rightarrow> mkdir_each parts cur' rooted w
         | Some (File t) \<Rightarrow> Inl (Thrown ''Error'' (''ENOTDIR: not a directory, mkdir '' @ [CHR 0x27] @ cur' @ [CHR 0x27]))))"

definition mkdirSync_recursive :: "world \<Rightarrow> string \<Rightarrow> thrown + world" where
  "mkdirSync_recursive w p = mkdir_each (split_on sep p) [] (isAbsolute p) w"

definition prepare_project :: "string \<Rightarrow> world \<Rightarrow> (thrown \<times> world) + world" where
  \<comment> \<open>the temporary \<open>package.json\<close> and \<open>public/index.html\<close>; an error keeps what was written before it\<close>
  "prepare_project rootPath w =
     (let packageJsonPath = join rootPath ''package.json'' in
      if existsSync w packageJsonPath then Inr w
      else (case writeFileSync w packageJsonPath package_json of
              Inl err \<Rightarrow> Inl (err, w)
            | Inr w1 \<Rightarrow>
                let indexHtmlPath = path_join [rootPath, ''public'', ''index.html''] in
                (case (if \<not> existsSync w1 (dirname indexHtmlPath)
                       then mkdirSync_recursive w1 (dirname indexHtmlPath) else Inr w1) of
                   Inl err \<Rightarrow> Inl (err, w1)
                 | Inr w2 \<Rightarrow>
                     (case writeFileSync w2 indexHtmlPath index_html of
                        Inl err \<Rightarrow> Inl (err, w2)
                      | Inr w3 \<Rightarrow> Inr w3))))"

definition broadcast :: "outmsg \<Rightarrow> world \<Rightarrow> sent" where
  \<comment> \<open>\<open>wss.clients.forEach\<close>: one message to every client whose socket is open\<close>
  "broadcast m w = map (\<lambda>c. (fst c, m)) (filter snd (clients w))"

definition startDevServer :: "world \<Rightarrow> world \<times> sent" where
  \<comment> \<open>the caller drops the process the function returns, so \<open>devServer\<close> stays as it was\<close>
  "startDevServer w =
     (if devServer w \<noteq> None then (w, [])
      else (case workspaceFolders w of
              [] \<Rightarrow> (showMessage ''Failed to start development server: Error: No workspace folder found'' w, [])
            | f # fs \<Rightarrow>
                (case prepare_project (folder_fsPath f) w of
                   Inl (err, w1) \<Rightarrow> (showMessage (''Failed to start development server: '' @ error_text err) w1, [])
                 | Inr w1 \<Rightarrow>
                     let w2 = w1\<lparr>spawned := spawned w1 @ [folder_fsPath f]\<rparr>
                     in (w2, broadcast (MDevServerStarted (''http://localhost:'' @ devServerPort)) w2))))"

definition stopDevServer :: "world \<Rightarrow> world" where
  "stopDevServer w = (if devServer w \<noteq> None then w\<lparr>devServer := None\<rparr> else w)"

definition json_invalid_preview :: "env \<Rightarrow> client \<Rightarrow> string \<Rightarrow> string \<Rightarrow> thrown \<Rightarrow> sent" where
  \<comment> \<open>the \<open>catch (jsonError)\<close> block; what it throws reaches the outer \<open>catch\<close>\<close>
  "json_invalid_preview e ws filePath content jsonError =
     (case escapeHtml e (error_message jsonError) of
        Inl err \<Rightarrow> [(ws, MError (''Error rendering preview: '' @ error_text err))]
      | Inr escaped_message \<Rightarrow>
          (case escapeHtml e content of
             Inl err \<Rightarrow> [(ws, MError (''Error rendering preview: '' @ error_text err))]
           | Inr escaped_content \<Rightarrow>
               [(ws, MPreview filePath (basename filePath)
                       (json_invalid_html (basename filePath) escaped_message escaped_content))]))"

definition is_script_ext :: "string \<Rightarrow> bool" where
  "is_script_ext ext = (ext = ''.tsx'' \<or> ext = ''.jsx'' \<or> ext = ''.ts'' \<or> ext = ''.js'')"

definition renderPreview :: "env \<Rightarrow> client \<Rightarrow> string \<Rightarrow> world \<Rightarrow> world \<times> sent" where
  "renderPreview e ws filePath w =
     (let ext = toLowerCase (extname filePath) in
      case current_text w filePath of
        None \<Rightarrow> (w, [(ws, MError (''Error rendering preview: Error: Failed to read file: '' @ filePath))])
      | Some content \<Rightarrow>
          if is_script_ext ext then
            (if devServer w = None then
               (if \<not> context_bound e then
                  (w, [(ws, MError ''Error rendering preview: ReferenceError: context is not defined'')])
                else
                  (case startDevServer w of
                     (w1, out) \<Rightarrow>
                       (w1, out @ [(ws, MPreview filePath (basename filePath)
                                           (react_preview_html (basename filePath) devServerPort))])))
             else
               (w, [(ws, MPreview filePath (basename filePath)
                            (react_preview_html (basename filePath) devServerPort))]))
          else if ext = ''.html'' then
            (w, [(ws, MPreview filePath (basename filePath) content)])
          else if ext = ''.css'' then
            (w, [(ws, MPreview filePath (basename filePath) (css_preview_html (basename filePath) content))])
          else if ext = ''.json'' then
            (case json_pretty e content of
               Inr formattedJson \<Rightarrow>
                 (case escapeHtml e formattedJson of
                    Inr escaped \<Rightarrow>
                      (w, [(ws, MPreview filePath (basename filePath)
                                   (json_preview_html (basename filePath) escaped))])
                  | Inl err \<Rightarrow> (w, json_invalid_preview e ws filePath content err))
             | Inl message \<Rightarrow>
                 (w, json_invalid_preview e ws filePath content (Thrown ''SyntaxError'' message)))
          else
            (w, [(ws, MError (''Preview not supported for file type: '' @ ext))]))"

section \<open>Workspace information and broadcasts\<close>

definition active_doc :: "world \<Rightarrow> textdoc option" where
  \<comment> \<open>\<open>window.activeTextEditor?.document\<close>, found among the open documents\<close>
  "active_doc w = (case activeTextEditor w of None \<Rightarrow> None | Some p \<Rightarrow> find_doc w p)"

definition sendWorkspaceInfo :: "client \<Rightarrow> world \<Rightarrow> world \<times> sent" where
  "sendWorkspaceInfo ws w =
     (let openFiles = map (\<lambda>d. (doc_fsPath d, basename (doc_fsPath d), doc_languageId d,
                                  map_option doc_fsPath (active_doc w) = Some (doc_fsPath d)))
                          (filter (\<lambda>d. \<not> doc_isUntitled d) (textDocuments w));
          activeFile = map_option (\<lambda>d. (doc_fsPath d, basename (doc_fsPath d), doc_text d, doc_languageId d))
                         (active_doc w)
      in (w, [(ws, MWorkspaceInfo (workspaceFolders w) openFiles activeFile)]))"

definition broadcastFileChange :: "string \<Rightarrow> world \<Rightarrow> sent" where
  "broadcastFileChange filePath w = broadcast (MFileChanged filePath (basename filePath)) w"

definition broadcastActiveEditorChange :: "string \<Rightarrow> world \<Rightarrow> sent" where
  "broadcastActiveEditorChange filePath w = broadcast (MActiveEditorChanged filePath (basename filePath)) w"

section \<open>From the model's response to file operations\<close>

datatype presult =
    Completed world sent bool     \<comment> \<open>the loops ran to their end; the flag is \<open>operationsPerformed\<close>\<close>
  | Returned world sent           \<comment> \<open>the bare \<open>return\<close> taken when no workspace folder is open\<close>
  | Threw thrown world sent       \<comment> \<open>an error left the function\<close>

fun result_sent :: "presult \<Rightarrow> sent" where
  "result_sent (Completed w out operationsPerformed) = out"
| "result_sent (Returned w out) = out"
| "result_sent (Threw err w out) = out"

text \<open>
  The \<open>while\<close> loop of one pattern. \<open>exec\<close> leaves \<open>lastIndex\<close> at the end of the
  match, so a match of no characters found at \<open>lastIndex\<close> itself would be found again for
  ever: the loop has no value then, which is \<open>None\<close>.
\<close>

function processMatches ::
  "env \<Rightarrow> client \<Rightarrow> regex \<Rightarrow> string \<Rightarrow> nat \<Rightarrow> world \<Rightarrow> sent \<Rightarrow> bool \<Rightarrow> presult option" where
  "processMatches e ws pattern message lastIndex w out operationsPerformed =
     (case exec pattern message lastIndex of
        None \<Rightarrow> Some (Completed w out operationsPerformed)
      | Some (m, lastIndex') \<Rightarrow>
          if lastIndex' \<le> lastIndex then None
          else
            (case m 1 of
               None \<Rightarrow> Some (Threw (Thrown ''TypeError'' ''Cannot read properties of undefined (reading 'trim')'') w out)
             | Some g1 \<Rightarrow>
            (case m 2 of
               None \<Rightarrow> Some (Threw (Thrown ''TypeError'' ''Cannot read properties of undefined (reading 'trim')'') w out)
             | Some g2 \<Rightarrow>
                 let filePath = trim g1; content = trim g2 in
                 if filePath = [] \<or> content = [] then
                   processMatches e ws pattern message lastIndex' w out operationsPerformed
                 else
                   (case workspaceFolders w of
                      [] \<Rightarrow> Some (Returned w (out @ [(ws, MError ''No workspace folder is open'')]))
                    | f # fs \<Rightarrow>
                        let workspacePath = folder_fsPath f;
                            absoluteFilePath = (if isAbsolute filePath then filePath
                                                else join workspacePath filePath);
                            r = (if stat w absoluteFilePath
                                 then modifyFile e ws absoluteFilePath content ''Updated by AI'' w
                                 else createFile e ws absoluteFilePath content w)
                        in processMatches e ws pattern message lastIndex' (fst r) (out @ snd r) True))))"
  by pat_completeness auto
termination
proof (relation "measure (\<lambda>(e, ws, pattern, message, lastIndex, w, out, ops). Suc (length message) - lastIndex)")
  have started: "i \<le> length s" if "exec re s i = Some r" for re s i r
    using that by (subst (asm) exec.simps) (simp split: if_splits)
  show "wf (measure (\<lambda>(e, ws, pattern, message, lastIndex, w, out, ops). Suc (length message) - lastIndex))"
    by simp
  show "((e, ws, pattern, message, lastIndex', w, out, operationsPerformed),
         (e, ws, pattern, message, lastIndex, w, out, operationsPerformed))
        \<in> measure (\<lambda>(e, ws, pattern, message, lastIndex, w, out, ops). Suc (length message) - lastIndex)"
    if "exec pattern message lastIndex = Some x2" "\<not> lastIndex' \<le> lastIndex"
    for e ws pattern message lastIndex w out operationsPerformed x2 and lastIndex' :: nat
    using started [OF that(1)] that(2) by simp
  show "((e, ws, pattern, message, lastIndex', fst r, out @ snd r, True),
         (e, ws, pattern, message, lastIndex, w, out, operationsPerformed))
        \<in> measure (\<lambda>(e, ws, pattern, message, lastIndex, w, out, ops). Suc (length message) - lastIndex)"
    if "exec pattern message lastIndex = Some x2" "\<not> lastIndex' \<le> lastIndex"
    for e ws pattern message lastIndex w out operationsPerformed x2 r and lastIndex' :: nat
    using started [OF that(1)] that(2) by simp
qed

declare processMatches.simps [simp del]

fun processPatterns ::
  "env \<Rightarrow> client \<Rightarrow> regex list \<Rightarrow> string \<Rightarrow> world \<Rightarrow> sent \<Rightarrow> bool \<Rightarrow> presult option" where
  \<comment> \<open>\<open>for (const pattern of filePatterns)\<close>: each pattern starts at \<open>lastIndex\<close> 0\<close>
  "processPatterns e ws [] message w out operationsPerformed = Some (Completed w out operationsPerformed)"
| "processPatterns e ws (pattern # patterns) message w out operationsPerformed =
     (case processMatches e ws pattern message 0 w out operationsPerformed of
        Some (Completed w' out' ops') \<Rightarrow> processPatterns e ws patterns message w' out' ops'
      | r \<Rightarrow> r)"

definition processAiResponseForFileOperations :: "env \<Rightarrow> client \<Rightarrow> string \<Rightarrow> world \<Rightarrow> presult option" where
  "processAiResponseForFileOperations e ws message w = processPatterns e ws filePatterns message w [] False"

section \<open>The chat request\<close>

definition systemMessage_execute :: string where
  "systemMessage_execute =
     ''You are CodeBanter, a VS Code assistant that creates files directly in the user's workspace. '' @
     ''IMPORTANT: Format your code blocks with the filename as a comment on the first line, like this: '' @
     backtick3 @ ''js // filename.js'' @ [CHR 0x0A] @ ''code here'' @ backtick3 @ '' or '' @
     backtick3 @ ''html <!-- index.html -->'' @ [CHR 0x0A] @ ''code here'' @ backtick3 @
     ''. The user expects you to create actual files in their workspace based on your response.''"

definition systemMessage_chat :: string where
  "systemMessage_chat =
     ''You are CodeBanter, a VS Code assistant. You can view files but in Chat mode, you cannot modify them. '' @
     ''Suggest switching to Execute mode if the user wants to make changes.''"

definition fileContext :: "world \<Rightarrow> string" where
  "fileContext w =
     (case active_doc w of
        None \<Rightarrow> []
      | Some d \<Rightarrow>
          ''Currently viewing file: '' @ basename (doc_fsPath d) @ [CHR 0x0A, CHR 0x0A] @
          ''File content:'' @ [CHR 0x0A] @ backtick3 @ [CHR 0x0A] @ doc_text d @ [CHR 0x0A] @
          backtick3 @ [CHR 0x0A, CHR 0x0A])"

definition join_names :: "string list \<Rightarrow> string" where
  \<comment> \<open>\<open>openFiles.join(', ')\<close>\<close>
  "join_names ns = (case ns of [] \<Rightarrow> [] | n # ms \<Rightarrow> foldl (\<lambda>acc m. acc @ '', '' @ m) n ms)"

definition workspaceContext :: "world \<Rightarrow> string" where
  "workspaceContext w =
     (case workspaceFolders w of
        [] \<Rightarrow> []
      | f # fs \<Rightarrow>
          let openFiles = map (\<lambda>d. basename (doc_fsPath d)) (filter (\<lambda>d. \<not> doc_isUntitled d) (textDocuments w))
          in ''Working in project: '' @ folder_name f @ [CHR 0x0A, CHR 0x0A] @
             (if openFiles \<noteq> [] then ''Open files: '' @ join_names openFiles @ [CHR 0x0A, CHR 0x0A] else []))"

definition handleChatMessage :: "env \<Rightarrow> client \<Rightarrow> string \<Rightarrow> bool \<Rightarrow> world \<Rightarrow> (world \<times> sent) option" where
  "handleChatMessage e ws message executeMode w =
     (let userMessage = workspaceContext w @ fileContext w @ message;
          systemMessage = (if executeMode then systemMessage_execute else systemMessage_chat)
      in case llm e systemMessage userMessage of
           Inl failure \<Rightarrow> Some (w, [(ws, MError (''Error processing chat message: '' @ failure))])
         | Inr responseText \<Rightarrow>
             if executeMode then
               (case processAiResponseForFileOperations e ws responseText w of
                  None \<Rightarrow> None
                | Some (Completed w' out filesProcessed) \<Rightarrow>
                    Some (w', out @ [(ws, MChat responseText (Some True) (Some filesProcessed))])
                | Some (Returned w' out) \<Rightarrow>
                    Some (w', out @ [(ws, MChat responseText (Some True) None)])
                | Some (Threw err w' out) \<Rightarrow>
                    Some (w', out @ [(ws, MError (''Error processing chat message: '' @ error_message err))]))
             else Some (w, [(ws, MChat responseText (Some False) (Some False))]))"

section \<open>The message router\<close>

record inbound =
  msg_type :: string
  msg_filePath :: string
  msg_content :: string
  msg_description :: string
  msg_message :: string
  msg_executeMode :: bool

definition on_message :: "env \<Rightarrow> client \<Rightarrow> inbound option \<Rightarrow> world \<Rightarrow> (world \<times> sent) option" where
  \<comment> \<open>\<open>ws.on('message', ...)\<close>; the argument is \<open>None\<close> where \<open>JSON.parse\<close> throws\<close>
  "on_message e ws raw w =
     (case raw of
        None \<Rightarrow> Some (w, [(ws, MError ''Error processing message'')])
      | Some data \<Rightarrow>
          if msg_type data = ''chat'' then handleChatMessage e ws (msg_message data) (msg_executeMode data) w
          else if msg_type data = ''getFiles'' then Some (sendWorkspaceInfo ws w)
          else if msg_type data = ''getFileContent'' then Some (getFileContent ws (msg_filePath data) w)
          else if msg_type data = ''modifyFile'' then
            Some (modifyFile e ws (msg_filePath data) (msg_content data) (msg_description data) w)
          else if msg_type data = ''createFile'' then
            Some (createFile e ws (msg_filePath data) (msg_content data) w)
          else if msg_type data = ''renderPreview'' then Some (renderPreview e ws (msg_filePath data) w)
          else if msg_type data = ''getDiff'' then Some (getFileDiff ws (msg_filePath data) w)
          else if msg_type data = ''testFileCreation'' then Some (testFileCreation e ws w)
          else Some (w, [(ws, MError (''Unknown message type: '' @ msg_type data))]))"

section \<open>Where a preview document holds an interpolated text\<close>

definition title_of :: "string \<Rightarrow> string \<Rightarrow> string" where
  \<comment> \<open>the title element of a generated document: a fixed label, then the file's base name\<close>
  "title_of label name = ''<title>'' @ label @ name @ ''</title>''"

definition style_block :: "string \<Rightarrow> string" where
  \<comment> \<open>the style element of the CSS preview, the content on a line of its own\<close>
  "style_block content =
     ''<style>'' @ [CHR 0x0A] @ ''                        '' @ content @ [CHR 0x0A] @
     ''                    </style>''"

definition json_pre :: "string \<Rightarrow> string" where
  \<comment> \<open>the element of the JSON preview that holds the formatted text\<close>
  \<open>json_pre escaped = ''<pre id="json-container">'' @ escaped @ ''</pre>''\<close>

definition warning_banner :: "string \<Rightarrow> string" where
  \<comment> \<open>the banner of the preview of a JSON file that does not parse\<close>
  \<open>warning_banner escaped_message =
     ''<div class="warning">Warning: Invalid JSON format - '' @ escaped_message @ ''</div>''\<close>

definition raw_pre :: "string \<Rightarrow> string" where
  \<comment> \<open>the element of that preview that holds the file's content\<close>
  "raw_pre escaped_content = ''<pre>'' @ escaped_content @ ''</pre>''"

section \<open>Kinds of outbound messages\<close>





section \<open>Example states\<close>

text \<open>
  A workspace with one folder \<open>/ws\<close> holding three files (one of them the style sheet
  \<open>/ws/<b>.css\<close>), no open document, and two clients of which the first has an open
  socket. In \<open>example_env\<close> neither \<open>context\<close> nor \<open>g\<close> is bound, as in the file on
  its own; \<open>bound_env\<close> binds both.
\<close>

definition example_env :: env where
  "example_env = \<lparr>context_bound = False, g_bound = False,
     llm = (\<lambda>systemMessage userMessage. Inl ''overloaded''),
     json_pretty = (\<lambda>text. Inl ''Unexpected token a in JSON at position 1''),
     edit_applies = (\<lambda>p. True),
     fs_error = (\<lambda>p. ''EntryIsADirectory (FileSystemError)'')\<rparr>"

definition bound_env :: env where
  "bound_env = example_env\<lparr>context_bound := True, g_bound := True\<rparr>"

definition example_css :: string where
  \<open>example_css = ''a > b { content: "<&'" }''\<close>

definition example_world :: world where
  "example_world = \<lparr>workspaceFolders = [\<lparr>folder_name = ''ws'', folder_fsPath = ''/ws''\<rparr>],
     textDocuments = [],
     activeTextEditor = None,
     files = [''/ws'' \<mapsto> Directory, ''/ws/a.txt'' \<mapsto> File ''old'',
              ''/ws/App.js'' \<mapsto> File ''export default 1'',
              ''/ws/<b>.css'' \<mapsto> File example_css],
     originalFileContents = Map.empty,
     devServer = None,
     clients = [(7, True), (8, False)],
     notifications = [],
     spawned = []\<rparr>"

definition example_test_message :: inbound where
  "example_test_message = \<lparr>msg_type = ''testFileCreation'', msg_filePath = [], msg_content = [],
     msg_description = [], msg_message = [], msg_executeMode = False\<rparr>"


definition example_response :: string where
  \<comment> \<open>one fenced block: \<open>```js // foo.js\<close>, \<open>console.log(1)\<close>, \<open>```\<close>\<close>
  "example_response = backtick3 @ ''js // foo.js'' @ [CHR 0x0A] @ ''console.log(1)'' @ [CHR 0x0A] @ backtick3"



section \<open>The parser on the one-block response\<close>

lemmas re_defs = example_response_def backtick3_def pattern_comment_def pattern_fence_def
  pattern_heading_def path_token_def body_to_fence_def is_space_def is_word_def
  is_line_terminator_def progress_def exec.simps

lemma exec_comment_0: "exec pattern_comment example_response 0 =
   Some ([1 \<mapsto> ''foo.js'', 2 \<mapsto> ''console.log(1)'' @ [CHR 0x0A]], 34)"
  by (simp add: re_defs)

lemma exec_comment_34: "exec pattern_comment example_response 34 = None"
  by (simp add: re_defs)

lemma exec_fence_0: "exec pattern_fence example_response 0 =
   Some ([1 \<mapsto> ''js // foo.js'', 2 \<mapsto> ''console.log(1)'' @ [CHR 0x0A]], 34)"
  by (simp add: re_defs)

lemma exec_fence_34: "exec pattern_fence example_response 34 = None"
  by (simp add: re_defs)

lemma exec_heading_0: "exec pattern_heading example_response 0 = None"
  by (simp add: re_defs)

lemma make_dirs_folders: "workspaceFolders (make_dirs parts cur w) = workspaceFolders w"
  by (induction parts cur w rule: make_dirs.induct) (simp_all add: Let_def createDirectory_def)

lemma createFile_folders: "workspaceFolders (fst (createFile e ws p c w)) = workspaceFolders w"
  by (simp add: createFile_def exists_probe_def write_new_file_def Let_def writeFile_def showMessage_def
      make_dirs_folders split: option.splits)

lemma matches_comment_end:
  "processMatches e ws pattern_comment example_response 34 w out ops = Some (Completed w out ops)"
  by (subst processMatches.simps) (simp add: exec_comment_34)

lemma matches_fence_end:
  "processMatches e ws pattern_fence example_response 34 w out ops = Some (Completed w out ops)"
  by (subst processMatches.simps) (simp add: exec_fence_34)

lemma matches_comment:
  assumes "workspaceFolders w = f # fs"
  shows "processMatches e ws pattern_comment example_response 0 w out ops =
    (let p = join (folder_fsPath f) ''foo.js'';
         r = (if stat w p then modifyFile e ws p ''console.log(1)'' ''Updated by AI'' w
              else createFile e ws p ''console.log(1)'' w)
     in Some (Completed (fst r) (out @ snd r) True))"
  by (subst processMatches.simps)
     (simp add: exec_comment_0 trim_def is_space_def isAbsolute_def sep_def assms Let_def matches_comment_end)

lemma matches_fence:
  assumes "workspaceFolders w = f # fs"
  shows "processMatches e ws pattern_fence example_response 0 w out ops =
    (let p = join (folder_fsPath f) ''js // foo.js'';
         r = (if stat w p then modifyFile e ws p ''console.log(1)'' ''Updated by AI'' w
              else createFile e ws p ''console.log(1)'' w)
     in Some (Completed (fst r) (out @ snd r) True))"
  by (subst processMatches.simps)
     (simp add: exec_fence_0 trim_def is_space_def isAbsolute_def sep_def assms Let_def matches_fence_end)

lemma matches_heading:
  "processMatches e ws pattern_heading example_response 0 w out ops = Some (Completed w out ops)"
  by (subst processMatches.simps) (simp add: exec_heading_0)

lemma join_foo: "join ''/ws'' ''foo.js'' = ''/ws/foo.js''"
  by code_simp

lemma join_js_foo: "join ''/ws'' ''js // foo.js'' = ''/ws/js / foo.js''"
  by code_simp

lemma split_js_dir: "split_on sep ''/ws/js '' = [[], ''ws'', ''js '']"
  by code_simp

lemma join_js_dir: "join ''ws'' ''js '' = ''ws/js ''"
  by code_simp

lemmas fs_defs = createFile_def exists_probe_def write_new_file_def stat_def fsPath_def sep_def
  dirname_def writeFile_def showMessage_def createDirectory_def basename_def Let_def

lemma example_folders:
  "workspaceFolders example_world = [\<lparr>folder_name = ''ws'', folder_fsPath = ''/ws''\<rparr>]"
  by (simp add: example_world_def)

lemma example_no_foo:
  "\<not> stat example_world (join (folder_fsPath \<lparr>folder_name = ''ws'', folder_fsPath = ''/ws''\<rparr>) ''foo.js'')"
  by (simp add: join_foo stat_def fsPath_def sep_def example_world_def)

text \<open>
  C1, as amended. The response holds one fenced block, \<open>```js // foo.js\<close>, then
  \<open>console.log(1)\<close>, then the closing fence. In a workspace whose first root has no
  \<open>foo.js\<close>, the parser dispatches two operations, not one. The first pattern gives
  \<open>createFile\<close> for \<open>foo.js\<close> joined to the first root, with content
  \<open>console.log(1)\<close>. The second pattern matches the same block with the whole fence line
  \<open>js // foo.js\<close> as its path, and gives a second operation on that path joined to the
  first root, with the same content: \<open>createFile\<close> where nothing exists there,
  \<open>modifyFile\<close> otherwise. The third pattern matches nothing, and the flag is true.
\<close>

theorem one_block_two_operations:
  assumes "workspaceFolders w = f # fs" and "\<not> stat w (join (folder_fsPath f) ''foo.js'')"
  shows "processAiResponseForFileOperations e ws example_response w =
   (let r1 = createFile e ws (join (folder_fsPath f) ''foo.js'') ''console.log(1)'' w;
        p2 = join (folder_fsPath f) ''js // foo.js'';
        r2 = (if stat (fst r1) p2 then modifyFile e ws p2 ''console.log(1)'' ''Updated by AI'' (fst r1)
              else createFile e ws p2 ''console.log(1)'' (fst r1))
    in Some (Completed (fst r2) (snd r1 @ snd r2) True))"
proof -
  let ?r1 = "createFile e ws (join (folder_fsPath f) ''foo.js'') ''console.log(1)'' w"
  have folders1: "workspaceFolders (fst ?r1) = f # fs"
    using assms(1) by (simp add: createFile_folders)
  have first: "processMatches e ws pattern_comment example_response 0 w [] False =
      Some (Completed (fst ?r1) (snd ?r1) True)"
    using assms(2) by (simp add: matches_comment [OF assms(1)] Let_def)
  show ?thesis
    by (simp add: processAiResponseForFileOperations_def filePatterns_def first
        matches_fence [OF folders1] matches_heading Let_def)
qed

text \<open>
  The witness: in \<open>example_world\<close> the root \<open>/ws\<close> has no \<open>foo.js\<close>, and the two
  acknowledgements name \<open>/ws/foo.js\<close> and \<open>/ws/js / foo.js\<close>.
\<close>

theorem one_block_two_operations_witness:
  "workspaceFolders example_world = [\<lparr>folder_name = ''ws'', folder_fsPath = ''/ws''\<rparr>] \<and>
   \<not> stat example_world ''/ws/foo.js'' \<and>
   map_option result_sent (processAiResponseForFileOperations example_env 7 example_response example_world) =
   Some [(7, MFileCreated ''/ws/foo.js''), (7, MFileCreated ''/ws/js / foo.js'')]"
  using one_block_two_operations [OF example_folders example_no_foo, of example_env 7]
  by (simp add: join_foo join_js_foo fs_defs split_js_dir join_js_dir example_world_def)

text \<open>
  C1 as it was stated fails: on this input the parser does not stop at the one
  \<open>createFile\<close> for \<open>foo.js\<close>. Two files are written and two acknowledgements sent.
\<close>

theorem one_block_single_createFile_counterexample:
  "processAiResponseForFileOperations example_env 7 example_response example_world =
   Some (Completed
     (example_world\<lparr>files := (files example_world)(''/ws/foo.js'' \<mapsto> File ''console.log(1)'',
          ''/ws/js '' \<mapsto> Directory, ''/ws/js / foo.js'' \<mapsto> File ''console.log(1)''),
        notifications := [''File created: foo.js'', ''File created:  foo.js'']\<rparr>)
     [(7, MFileCreated ''/ws/foo.js''), (7, MFileCreated ''/ws/js / foo.js'')] True)"
proof -
  have first: "processMatches example_env 7 pattern_comment example_response 0 example_world [] False =
      Some (Completed
        (fst (createFile example_env 7 ''/ws/foo.js'' ''console.log(1)'' example_world))
        (snd (createFile example_env 7 ''/ws/foo.js'' ''console.log(1)'' example_world)) True)"
    using example_no_foo by (simp add: matches_comment [OF example_folders] join_foo Let_def)
  have folders1: "workspaceFolders (fst (createFile example_env 7 ''/ws/foo.js'' ''console.log(1)'' example_world))
      = [\<lparr>folder_name = ''ws'', folder_fsPath = ''/ws''\<rparr>]"
    by (simp add: createFile_folders example_folders)
  have run: "processAiResponseForFileOperations example_env 7 example_response example_world =
      (let r1 = createFile example_env 7 ''/ws/foo.js'' ''console.log(1)'' example_world;
           r2 = (if stat (fst r1) ''/ws/js / foo.js''
                 then modifyFile example_env 7 ''/ws/js / foo.js'' ''console.log(1)'' ''Updated by AI'' (fst r1)
                 else createFile example_env 7 ''/ws/js / foo.js'' ''console.log(1)'' (fst r1))
       in Some (Completed (fst r2) (snd r1 @ snd r2) True))"
    by (simp add: processAiResponseForFileOperations_def filePatterns_def first
        matches_fence [OF folders1] matches_heading join_js_foo Let_def)
  show ?thesis
    unfolding run by (simp add: fs_defs split_js_dir join_js_dir example_world_def)
qed

section \<open>Creating over an existing file\<close>

lemma createFile_existing_file:
  assumes "files w (fsPath filePath) = Some (File old)" and "stat w (dirname filePath)"
  shows "createFile e ws filePath content w =
    (showMessage (''File created: '' @ basename filePath)
       (w\<lparr>files := (files w)(fsPath filePath \<mapsto> File content)\<rparr>),
     [(ws, MFileCreated filePath)])"
  using assms by (simp add: createFile_def exists_probe_def write_new_file_def writeFile_def Let_def)

text \<open>
  C2. The claim is that \<open>createFile\<close> on a path where a file exists fails with an
  already-exists error and writes nothing. The code does not: the error it throws after a
  successful \<open>stat\<close> is caught by the empty handler of the same \<open>try\<close>. At
  \<open>/ws/a.txt\<close>, which holds \<open>old\<close>, the file is overwritten with the new content and
  the success acknowledgement is sent.
\<close>

theorem createFile_overwrites_existing:
  "files example_world ''/ws/a.txt'' = Some (File ''old'') \<and>
   createFile example_env 7 ''/ws/a.txt'' ''new'' example_world =
     (example_world\<lparr>files := (files example_world)(''/ws/a.txt'' \<mapsto> File ''new''),
        notifications := [''File created: a.txt'']\<rparr>,
      [(7, MFileCreated ''/ws/a.txt'')])"
  by (simp add: fs_defs example_world_def)

section \<open>The baseline of the diff\<close>

lemma modifyFile_keeps_baseline:
  assumes "originalFileContents w filePath = Some text"
  shows "originalFileContents (fst (modifyFile e ws filePath content description w)) filePath = Some text"
  using assms
  by (simp add: modifyFile_def store_original_def writeFile_def showMessage_def replace_doc_text_def Let_def
      split: option.splits)

lemma getFileDiff_keeps_state: "fst (getFileDiff ws filePath w) = w"
  by (simp add: getFileDiff_def split: option.splits)

lemma getFileContent_sets_baseline:
  assumes "current_text w filePath = Some text"
  shows "originalFileContents (fst (getFileContent ws filePath w)) filePath = Some text"
  using assms
  by (simp add: getFileContent_def current_text_def set_original_def split: option.splits)

text \<open>
  C3. The claim is that the baseline of a path, once set, is never overwritten, so that
  reading, modifying, reading again and asking for the diff returns the content of the
  first read as \<open>originalContent\<close>. \<open>modifyFile\<close> keeps a stored baseline and
  \<open>getFileDiff\<close> writes none, but \<open>getFileContent\<close> stores what it reads every time.
  At \<open>/ws/a.txt\<close> the first read returns \<open>old\<close> and the diff returns \<open>new\<close> as the
  original content.
\<close>

theorem second_read_overwrites_baseline:
  "(let p = ''/ws/a.txt'';
        r1 = getFileContent 7 p example_world;
        r2 = modifyFile example_env 7 p ''new'' ''edit'' (fst r1);
        r3 = getFileContent 7 p (fst r2);
        r4 = getFileDiff 7 p (fst r3)
    in snd r1 = [(7, MFileContent p ''a.txt'' ''old'' ''txt'')] \<and>
       originalFileContents (fst r2) p = Some ''old'' \<and>
       snd r2 = [(7, MFileModified p)] \<and>
       snd r3 = [(7, MFileContent p ''a.txt'' ''new'' ''txt'')] \<and>
       snd r4 = [(7, MDiff p ''a.txt'' ''new'' ''new'')])"
  by (simp add: getFileContent_def modifyFile_def getFileDiff_def find_doc_def readFile_def stat_def
      fsPath_def sep_def writeFile_def showMessage_def example_world_def Let_def set_original_def
      store_original_def current_text_def basename_def extname_def)

section \<open>Modifying a file that does not exist\<close>

text \<open>
  C4. For every path at which nothing exists, \<open>modifyFile\<close> answers with the one error
  message that the file does not exist and returns the state as it was: no file is written
  or created, no baseline is stored, nothing is shown, and no success acknowledgement is
  sent.
\<close>

theorem modifyFile_missing_file:
  assumes "files w (fsPath filePath) = None"
  shows "modifyFile e ws filePath content description w =
    (w, [(ws, MError (''Error modifying file: Error: File does not exist: '' @ filePath))])"
  using assms by (simp add: modifyFile_def stat_def)

text \<open>
  The witness: nothing exists at \<open>/ws/missing.txt\<close> in \<open>example_world\<close>.
\<close>

theorem modifyFile_missing_file_witness:
  "files example_world (fsPath ''/ws/missing.txt'') = None \<and>
   modifyFile example_env 7 ''/ws/missing.txt'' ''x'' ''edit'' example_world =
    (example_world, [(7, MError ''Error modifying file: Error: File does not exist: /ws/missing.txt'')])"
proof -
  have absent: "files example_world (fsPath ''/ws/missing.txt'') = None"
    by (simp add: example_world_def fsPath_def sep_def)
  show ?thesis
    using absent modifyFile_missing_file [OF absent, of example_env 7 "''x''" "''edit''"] by simp
qed

section \<open>What the previews interpolate\<close>

lemma join_fold_append:
  "foldl (\<lambda>acc q. acc @ [c] @ q) (a @ b) qs = a @ foldl (\<lambda>acc q. acc @ [c] @ q) b qs"
  by (induction qs arbitrary: b) simp_all

lemma join_with_Cons2: "join_with c (p # q # qs) = p @ [c] @ join_with c (q # qs)"
  using join_fold_append [of c "p @ [c]" q qs] by (simp add: join_with_def)

lemma sublist_join_with: "l \<in> set ls \<Longrightarrow> sublist l (join_with c ls)"
proof (induction ls rule: induct_list012)
  case 1
  then show ?case by simp
next
  case (2 p)
  then show ?case by (simp add: join_with_def)
next
  case (3 p q qs)
  show ?case
  proof (cases "l = p")
    case True
    then show ?thesis by (simp add: join_with_Cons2)
  next
    case False
    with 3 have "sublist l (join_with c (q # qs))" by auto
    then show ?thesis
      unfolding join_with_Cons2 sublist_def by (metis append.assoc)
  qed
qed

lemma sublist_unlines: "l \<in> set ls \<Longrightarrow> sublist l (unlines ls)"
  unfolding unlines_def by (rule sublist_join_with)

lemma react_preview_title:
  \<open>sublist (title_of ''React Component Preview - '' name) (react_preview_html name port)\<close>
proof -
  have \<open>sublist (title_of ''React Component Preview - '' name)
      (''                    <title>React Component Preview - '' @ name @ ''</title>'')\<close>
    unfolding sublist_def
    by (rule exI [of _ \<open>''                    ''\<close>], rule exI [of _ \<open>[]\<close>]) (simp add: title_of_def json_pre_def warning_banner_def raw_pre_def)
  moreover have \<open>sublist (''                    <title>React Component Preview - '' @ name @ ''</title>'')
      (react_preview_html name port)\<close>
    unfolding react_preview_html_def by (rule sublist_unlines) simp
  ultimately show ?thesis by (rule sublist_order.order.trans)
qed

lemma css_preview_title:
  \<open>sublist (title_of ''Preview - '' name) (css_preview_html name content)\<close>
proof -
  have \<open>sublist (title_of ''Preview - '' name)
      (''                    <title>Preview - '' @ name @ ''</title>'')\<close>
    unfolding sublist_def
    by (rule exI [of _ \<open>''                    ''\<close>], rule exI [of _ \<open>[]\<close>]) (simp add: title_of_def json_pre_def warning_banner_def raw_pre_def)
  moreover have \<open>sublist (''                    <title>Preview - '' @ name @ ''</title>'')
      (css_preview_html name content)\<close>
    unfolding css_preview_html_def by (rule sublist_unlines) simp
  ultimately show ?thesis by (rule sublist_order.order.trans)
qed

lemma css_preview_style:
  \<open>sublist (style_block content) (css_preview_html name content)\<close>
  unfolding sublist_def
  by (rule exI [of _ \<open>unlines [
       [],
       ''                <!DOCTYPE html>'',
       ''                <html>'',
       ''                <head>'',
       ''                    <title>Preview - '' @ name @ ''</title>'',
       ''                    '']\<close>],
      rule exI [of _ \<open>unlines [
       [],
       ''                </head>'',
       ''                <body>'',
       ''                    <div class="preview-container">'',
       ''                        <h1>CSS Preview</h1>'',
       ''                        <p>This is a preview of how the CSS might look applied to basic HTML elements.</p>'',
       ''                        <button>Button Example</button>'',
       ''                        <a href="#">Link Example</a>'',
       ''                        <div class="box">Styled Box</div>'',
       ''                    </div>'',
       ''                </body>'',
       ''                </html>'',
       ''            '']\<close>])
     (simp add: css_preview_html_def unlines_def join_with_def style_block_def)

lemma json_preview_title:
  \<open>sublist (title_of ''JSON Preview - '' name) (json_preview_html name escaped)\<close>
proof -
  have \<open>sublist (title_of ''JSON Preview - '' name)
      (''                        <title>JSON Preview - '' @ name @ ''</title>'')\<close>
    unfolding sublist_def
    by (rule exI [of _ \<open>''                        ''\<close>], rule exI [of _ \<open>[]\<close>]) (simp add: title_of_def json_pre_def warning_banner_def raw_pre_def)
  moreover have \<open>sublist (''                        <title>JSON Preview - '' @ name @ ''</title>'')
      (json_preview_html name escaped)\<close>
    unfolding json_preview_html_def by (rule sublist_unlines) simp
  ultimately show ?thesis by (rule sublist_order.order.trans)
qed

lemma json_preview_pre:
  \<open>sublist (json_pre escaped) (json_preview_html name escaped)\<close>
proof -
  have \<open>sublist (json_pre escaped)
      (''                        <pre id="json-container">'' @ escaped @ ''</pre>'')\<close>
    unfolding sublist_def
    by (rule exI [of _ \<open>''                        ''\<close>], rule exI [of _ \<open>[]\<close>]) (simp add: title_of_def json_pre_def warning_banner_def raw_pre_def)
  moreover have \<open>sublist (''                        <pre id="json-container">'' @ escaped @ ''</pre>'')
      (json_preview_html name escaped)\<close>
    unfolding json_preview_html_def by (rule sublist_unlines) simp
  ultimately show ?thesis by (rule sublist_order.order.trans)
qed

lemma json_invalid_title:
  \<open>sublist (title_of ''JSON Preview (Invalid) - '' name) (json_invalid_html name escaped_message escaped_content)\<close>
proof -
  have \<open>sublist (title_of ''JSON Preview (Invalid) - '' name)
      (''                        <title>JSON Preview (Invalid) - '' @ name @ ''</title>'')\<close>
    unfolding sublist_def
    by (rule exI [of _ \<open>''                        ''\<close>], rule exI [of _ \<open>[]\<close>]) (simp add: title_of_def json_pre_def warning_banner_def raw_pre_def)
  moreover have \<open>sublist (''                        <title>JSON Preview (Invalid) - '' @ name @ ''</title>'')
      (json_invalid_html name escaped_message escaped_content)\<close>
    unfolding json_invalid_html_def by (rule sublist_unlines) simp
  ultimately show ?thesis by (rule sublist_order.order.trans)
qed

lemma json_invalid_warning:
  \<open>sublist (warning_banner escaped_message) (json_invalid_html name escaped_message escaped_content)\<close>
proof -
  have \<open>sublist (warning_banner escaped_message)
      (''                        <div class="warning">Warning: Invalid JSON format - '' @ escaped_message @ ''</div>'')\<close>
    unfolding sublist_def
    by (rule exI [of _ \<open>''                        ''\<close>], rule exI [of _ \<open>[]\<close>]) (simp add: title_of_def json_pre_def warning_banner_def raw_pre_def)
  moreover have \<open>sublist (''                        <div class="warning">Warning: Invalid JSON format - '' @ escaped_message @ ''</div>'')
      (json_invalid_html name escaped_message escaped_content)\<close>
    unfolding json_invalid_html_def by (rule sublist_unlines) simp
  ultimately show ?thesis by (rule sublist_order.order.trans)
qed

lemma json_invalid_pre:
  \<open>sublist (raw_pre escaped_content) (json_invalid_html name escaped_message escaped_content)\<close>
proof -
  have \<open>sublist (raw_pre escaped_content)
      (''                        <pre>'' @ escaped_content @ ''</pre>'')\<close>
    unfolding sublist_def
    by (rule exI [of _ \<open>''                        ''\<close>], rule exI [of _ \<open>[]\<close>]) (simp add: title_of_def json_pre_def warning_banner_def raw_pre_def)
  moreover have \<open>sublist (''                        <pre>'' @ escaped_content @ ''</pre>'')
      (json_invalid_html name escaped_message escaped_content)\<close>
    unfolding json_invalid_html_def by (rule sublist_unlines) simp
  ultimately show ?thesis by (rule sublist_order.order.trans)
qed

lemma escapeHtml_fails_iff: "(\<exists>err. escapeHtml e text = Inl err) \<longleftrightarrow> \<not> g_bound e"
  by (simp add: escapeHtml_def Let_def)

lemma escapeHtml_cases:
  obtains (unbound) "\<not> g_bound e" "\<And>text. escapeHtml e text = Inl (Thrown ''ReferenceError'' ''g is not defined'')"
  | (bound) "g_bound e" "\<And>text. \<exists>escaped. escapeHtml e text = Inr escaped"
  by (cases "g_bound e") (simp_all add: escapeHtml_def Let_def)

lemma preview_html:
  assumes "current_text w filePath = Some content" "toLowerCase (extname filePath) = ''.html''"
  shows "renderPreview e ws filePath w = (w, [(ws, MPreview filePath (basename filePath) content)])"
  using assms by (simp add: renderPreview_def is_script_ext_def Let_def)

lemma preview_css:
  assumes "current_text w filePath = Some content" "toLowerCase (extname filePath) = ''.css''"
  shows "renderPreview e ws filePath w =
    (w, [(ws, MPreview filePath (basename filePath) (css_preview_html (basename filePath) content))])"
  using assms by (simp add: renderPreview_def is_script_ext_def Let_def)

lemma preview_json:
  assumes "current_text w filePath = Some content" "toLowerCase (extname filePath) = ''.json''"
  shows "(\<exists>err. renderPreview e ws filePath w = (w, [(ws, MError (''Error rendering preview: '' @ error_text err))]))
    \<or> (\<exists>formatted escaped. json_pretty e content = Inr formatted \<and> escapeHtml e formatted = Inr escaped \<and>
          renderPreview e ws filePath w =
            (w, [(ws, MPreview filePath (basename filePath) (json_preview_html (basename filePath) escaped))]))
    \<or> (\<exists>message escaped_message escaped_content. json_pretty e content = Inl message \<and>
          escapeHtml e message = Inr escaped_message \<and> escapeHtml e content = Inr escaped_content \<and>
          renderPreview e ws filePath w =
            (w, [(ws, MPreview filePath (basename filePath)
                   (json_invalid_html (basename filePath) escaped_message escaped_content))]))"
proof (cases e rule: escapeHtml_cases)
  case unbound
  have "renderPreview e ws filePath w =
      (w, [(ws, MError (''Error rendering preview: '' @
                  error_text (Thrown ''ReferenceError'' ''g is not defined'')))])"
    using assms unbound(2)
    by (simp add: renderPreview_def is_script_ext_def json_invalid_preview_def Let_def split: sum.splits)
  then show ?thesis by blast
next
  case bound
  show ?thesis
  proof (cases "json_pretty e content")
    case (Inr formatted)
    obtain escaped where "escapeHtml e formatted = Inr escaped" using bound(2) by blast
    with Inr assms show ?thesis
      by (simp add: renderPreview_def is_script_ext_def Let_def)
  next
    case (Inl message)
    obtain em where em: "escapeHtml e message = Inr em" using bound(2) by blast
    obtain ec where ec: "escapeHtml e content = Inr ec" using bound(2) by blast
    with Inl em assms show ?thesis
      by (simp add: renderPreview_def is_script_ext_def json_invalid_preview_def Let_def)
  qed
qed

lemma preview_script:
  assumes "is_script_ext (toLowerCase (extname filePath))"
    and "(ws, MPreview p n doc) \<in> set (snd (renderPreview e ws filePath w))"
  shows "doc = react_preview_html (basename filePath) devServerPort"
proof -
  have "\<forall>cm \<in> set (snd (startDevServer w)). \<exists>url. snd cm = MDevServerStarted url"
    by (auto simp: startDevServer_def broadcast_def Let_def split: list.splits sum.splits prod.splits)
  then show ?thesis using assms
    by (auto simp: renderPreview_def Let_def split: option.splits prod.splits if_splits)
qed

lemma text_css: "current_text example_world ''/ws/<b>.css'' = Some example_css"
  by (simp add: current_text_def find_doc_def readFile_def fsPath_def sep_def example_world_def)

lemma ext_css: "toLowerCase (extname ''/ws/<b>.css'') = ''.css''"
  by code_simp

lemma base_css: "basename ''/ws/<b>.css'' = ''<b>.css''"
  by code_simp

text \<open>
  C5, as amended. Of what the preview renderer interpolates, only the texts of the
  \<open>.json\<close> preview pass through \<open>escapeHtml\<close>: the formatted JSON in its \<open>pre\<close>
  element, or, where parsing fails, the error's message in the warning banner and the raw
  content in the \<open>pre\<close> element. The \<open>.css\<close> preview places the file's content as it
  is inside the \<open>style\<close> element; an \<open>.html\<close> file's content is the artifact as it is;
  and every generated document (the CSS page, both JSON pages and the shell for script
  files) places the file's base name as it is inside its \<open>title\<close> element.
\<close>

theorem preview_interpolation:
  assumes "current_text w filePath = Some content"
  shows "(toLowerCase (extname filePath) = ''.html'' \<longrightarrow>
            renderPreview e ws filePath w = (w, [(ws, MPreview filePath (basename filePath) content)]))
       \<and> (toLowerCase (extname filePath) = ''.css'' \<longrightarrow>
            (\<exists>doc. renderPreview e ws filePath w = (w, [(ws, MPreview filePath (basename filePath) doc)]) \<and>
                   doc = css_preview_html (basename filePath) content \<and>
                   sublist (title_of ''Preview - '' (basename filePath)) doc \<and>
                   sublist (style_block content) doc))
       \<and> (toLowerCase (extname filePath) = ''.json'' \<longrightarrow>
            (\<exists>err. renderPreview e ws filePath w =
                     (w, [(ws, MError (''Error rendering preview: '' @ error_text err))])) \<or>
            (\<exists>formatted escaped doc.
                json_pretty e content = Inr formatted \<and> escapeHtml e formatted = Inr escaped \<and>
                renderPreview e ws filePath w = (w, [(ws, MPreview filePath (basename filePath) doc)]) \<and>
                doc = json_preview_html (basename filePath) escaped \<and>
                sublist (title_of ''JSON Preview - '' (basename filePath)) doc \<and>
                sublist (json_pre escaped) doc) \<or>
            (\<exists>message escaped_message escaped_content doc.
                json_pretty e content = Inl message \<and> escapeHtml e message = Inr escaped_message \<and>
                escapeHtml e content = Inr escaped_content \<and>
                renderPreview e ws filePath w = (w, [(ws, MPreview filePath (basename filePath) doc)]) \<and>
                doc = json_invalid_html (basename filePath) escaped_message escaped_content \<and>
                sublist (title_of ''JSON Preview (Invalid) - '' (basename filePath)) doc \<and>
                sublist (warning_banner escaped_message) doc \<and>
                sublist (raw_pre escaped_content) doc))
       \<and> (is_script_ext (toLowerCase (extname filePath)) \<longrightarrow>
            (\<forall>p n doc. (ws, MPreview p n doc) \<in> set (snd (renderPreview e ws filePath w)) \<longrightarrow>
               doc = react_preview_html (basename filePath) devServerPort \<and>
               sublist (title_of ''React Component Preview - '' (basename filePath)) doc))"
proof (intro conjI impI allI)
  assume "toLowerCase (extname filePath) = ''.html''"
  with assms show "renderPreview e ws filePath w = (w, [(ws, MPreview filePath (basename filePath) content)])"
    by (rule preview_html)
next
  assume "toLowerCase (extname filePath) = ''.css''"
  with assms have "renderPreview e ws filePath w =
      (w, [(ws, MPreview filePath (basename filePath) (css_preview_html (basename filePath) content))])"
    by (rule preview_css)
  then show "\<exists>doc. renderPreview e ws filePath w = (w, [(ws, MPreview filePath (basename filePath) doc)]) \<and>
      doc = css_preview_html (basename filePath) content \<and>
      sublist (title_of ''Preview - '' (basename filePath)) doc \<and> sublist (style_block content) doc"
    by (simp add: css_preview_title css_preview_style)
next
  assume "toLowerCase (extname filePath) = ''.json''"
  with assms show "(\<exists>err. renderPreview e ws filePath w =
                     (w, [(ws, MError (''Error rendering preview: '' @ error_text err))])) \<or>
            (\<exists>formatted escaped doc.
                json_pretty e content = Inr formatted \<and> escapeHtml e formatted = Inr escaped \<and>
                renderPreview e ws filePath w = (w, [(ws, MPreview filePath (basename filePath) doc)]) \<and>
                doc = json_preview_html (basename filePath) escaped \<and>
                sublist (title_of ''JSON Preview - '' (basename filePath)) doc \<and>
                sublist (json_pre escaped) doc) \<or>
            (\<exists>message escaped_message escaped_content doc.
                json_pretty e content = Inl message \<and> escapeHtml e message = Inr escaped_message \<and>
                escapeHtml e content = Inr escaped_content \<and>
                renderPreview e ws filePath w = (w, [(ws, MPreview filePath (basename filePath) doc)]) \<and>
                doc = json_invalid_html (basename filePath) escaped_message escaped_content \<and>
                sublist (title_of ''JSON Preview (Invalid) - '' (basename filePath)) doc \<and>
                sublist (warning_banner escaped_message) doc \<and>
                sublist (raw_pre escaped_content) doc)"
    using preview_json [of w filePath content e ws]
    by (simp add: json_preview_title json_preview_pre json_invalid_title json_invalid_warning json_invalid_pre)
next
  fix p n doc
  assume "is_script_ext (toLowerCase (extname filePath))"
    and "(ws, MPreview p n doc) \<in> set (snd (renderPreview e ws filePath w))"
  then have "doc = react_preview_html (basename filePath) devServerPort"
    by (rule preview_script)
  then show "doc = react_preview_html (basename filePath) devServerPort"
    and "sublist (title_of ''React Component Preview - '' (basename filePath)) doc"
    by (simp_all add: react_preview_title)
qed

text \<open>
  The witness: the style sheet \<open>/ws/<b>.css\<close> of \<open>example_world\<close>.
\<close>

theorem preview_interpolation_witness:
  "current_text example_world ''/ws/<b>.css'' = Some example_css \<and>
   toLowerCase (extname ''/ws/<b>.css'') = ''.css'' \<and>
   (\<exists>doc. renderPreview example_env 7 ''/ws/<b>.css'' example_world =
            (example_world, [(7, MPreview ''/ws/<b>.css'' ''<b>.css'' doc)]) \<and>
          sublist (title_of ''Preview - '' ''<b>.css'') doc \<and> sublist (style_block example_css) doc)"
  using text_css ext_css preview_interpolation [OF text_css, of example_env 7]
  by (simp add: base_css)

text \<open>
  C5 as it was stated fails for the CSS preview. The style sheet \<open>/ws/<b>.css\<close> holds
  each of the five characters; the artifact has the base name \<open><b>.css\<close> in its title and
  the content in its style element, both unescaped.
\<close>

theorem css_preview_unescaped_counterexample:
  "set [CHR ''&'', CHR ''<'', CHR ''>'', CHR 0x22, CHR 0x27] \<subseteq> set example_css \<and>
   renderPreview example_env 7 ''/ws/<b>.css'' example_world =
     (example_world, [(7, MPreview ''/ws/<b>.css'' ''<b>.css'' (css_preview_html ''<b>.css'' example_css))]) \<and>
   sublist (title_of ''Preview - '' ''<b>.css'') (css_preview_html ''<b>.css'' example_css) \<and>
   sublist (style_block example_css) (css_preview_html ''<b>.css'' example_css)"
proof -
  have "set [CHR ''&'', CHR ''<'', CHR ''>'', CHR 0x22, CHR 0x27] \<subseteq> set example_css"
    by (simp add: example_css_def)
  moreover have "renderPreview example_env 7 ''/ws/<b>.css'' example_world =
     (example_world, [(7, MPreview ''/ws/<b>.css'' ''<b>.css'' (css_preview_html ''<b>.css'' example_css))])"
    using preview_css [OF text_css ext_css, of example_env 7] by (simp add: base_css)
  ultimately show ?thesis
    by (simp add: css_preview_title css_preview_style)
qed

section \<open>Escaping\<close>

text \<open>
  C6. The claim is that \<open>escapeHtml\<close> returns a text without an unescaped double quote
  (nor \<open><\<close>, \<open>>\<close>, a bare \<open>&\<close> or a single quote). On the text that is one double quote
  the code returns no escaped text: it raises \<open>ReferenceError\<close> where \<open>g\<close> is unbound, and
  returns the double quote unchanged where \<open>g\<close> is bound.
\<close>

theorem escapeHtml_double_quote:
  "escapeHtml e [CHR 0x22] =
     (if g_bound e then Inr [CHR 0x22] else Inl (Thrown ''ReferenceError'' ''g is not defined''))"
  by (simp add: escapeHtml_def)

section \<open>The dev server\<close>

lemma join_package: "join ''/ws'' ''package.json'' = ''/ws/package.json''"
  by code_simp

lemma join_index: "path_join [''/ws'', ''public'', ''index.html''] = ''/ws/public/index.html''"
  by code_simp

lemma split_public: "split_on sep ''/ws/public'' = [[], ''ws'', ''public'']"
  by code_simp

lemma ext_app: "toLowerCase (extname ''/ws/App.js'') = ''.js''"
  by code_simp

lemma base_app: "basename ''/ws/App.js'' = ''App.js''"
  by code_simp

lemma dir_index: "dirname ''/ws/public/index.html'' = ''/ws/public''"
  by code_simp

lemma dir_package: "dirname ''/ws/package.json'' = ''/ws''"
  by code_simp

lemma text_app: "current_text example_world ''/ws/App.js'' = Some ''export default 1''"
  by (simp add: current_text_def find_doc_def readFile_def fsPath_def sep_def example_world_def)

lemma example_devServer: "devServer example_world = None"
  by (simp add: example_world_def)

lemma bound_context: "context_bound bound_env"
  by (simp add: bound_env_def)

lemma unbound_context: "\<not> context_bound example_env"
  by (simp add: example_env_def)

lemma start_example: "startDevServer example_world =
   (example_world\<lparr>files := (files example_world)(''/ws/package.json'' \<mapsto> File package_json,
        ''/ws/public'' \<mapsto> Directory, ''/ws/public/index.html'' \<mapsto> File index_html),
      spawned := [''/ws'']\<rparr>,
    [(7, MDevServerStarted ''http://localhost:3001'')])"
  by (simp add: startDevServer_def prepare_project_def existsSync_def writeFileSync_def
      mkdirSync_recursive_def isAbsolute_def broadcast_def showMessage_def Let_def join_package join_index
      split_public dir_index dir_package example_world_def devServerPort_def sep_def)

lemma start_again:
  "startDevServer (example_world\<lparr>files := (files example_world)(''/ws/package.json'' \<mapsto> File package_json,
        ''/ws/public'' \<mapsto> Directory, ''/ws/public/index.html'' \<mapsto> File index_html),
      spawned := [''/ws'']\<rparr>) =
   (example_world\<lparr>files := (files example_world)(''/ws/package.json'' \<mapsto> File package_json,
        ''/ws/public'' \<mapsto> Directory, ''/ws/public/index.html'' \<mapsto> File index_html),
      spawned := [''/ws'', ''/ws'']\<rparr>,
    [(7, MDevServerStarted ''http://localhost:3001'')])"
  by (simp add: startDevServer_def prepare_project_def existsSync_def broadcast_def Let_def join_package
      example_world_def devServerPort_def)

lemma text_app_again:
  "current_text (example_world\<lparr>files := (files example_world)(''/ws/package.json'' \<mapsto> File package_json,
        ''/ws/public'' \<mapsto> Directory, ''/ws/public/index.html'' \<mapsto> File index_html),
      spawned := [''/ws'']\<rparr>) ''/ws/App.js'' = Some ''export default 1''"
  by (simp add: current_text_def find_doc_def readFile_def fsPath_def sep_def example_world_def)

lemma preview_unbound: "renderPreview example_env 7 ''/ws/App.js'' example_world =
   (example_world, [(7, MError ''Error rendering preview: ReferenceError: context is not defined'')])"
  by (simp add: renderPreview_def text_app example_devServer unbound_context ext_app is_script_ext_def Let_def)

lemma preview_first: "renderPreview bound_env 7 ''/ws/App.js'' example_world =
   (example_world\<lparr>files := (files example_world)(''/ws/package.json'' \<mapsto> File package_json,
        ''/ws/public'' \<mapsto> Directory, ''/ws/public/index.html'' \<mapsto> File index_html),
      spawned := [''/ws'']\<rparr>,
    [(7, MDevServerStarted ''http://localhost:3001''),
     (7, MPreview ''/ws/App.js'' ''App.js'' (react_preview_html ''App.js'' devServerPort))])"
  by (simp add: renderPreview_def text_app example_devServer bound_context start_example ext_app base_app
      is_script_ext_def Let_def)

lemma preview_second:
  "renderPreview bound_env 7 ''/ws/App.js''
      (example_world\<lparr>files := (files example_world)(''/ws/package.json'' \<mapsto> File package_json,
        ''/ws/public'' \<mapsto> Directory, ''/ws/public/index.html'' \<mapsto> File index_html),
      spawned := [''/ws'']\<rparr>) =
     (example_world\<lparr>files := (files example_world)(''/ws/package.json'' \<mapsto> File package_json,
        ''/ws/public'' \<mapsto> Directory, ''/ws/public/index.html'' \<mapsto> File index_html),
      spawned := [''/ws'', ''/ws'']\<rparr>,
      [(7, MDevServerStarted ''http://localhost:3001''),
       (7, MPreview ''/ws/App.js'' ''App.js'' (react_preview_html ''App.js'' devServerPort))])"
  by (simp add: renderPreview_def text_app_again example_devServer bound_context start_again ext_app base_app
      is_script_ext_def Let_def)

lemma mkdir_each_devServer: "mkdir_each parts cur rooted w = Inr w' \<Longrightarrow> devServer w' = devServer w"
  by (induction parts cur rooted w rule: mkdir_each.induct)
     (auto simp: Let_def split: if_splits option.splits node.splits)

lemma prepare_project_devServer:
  "prepare_project root w = Inr w' \<Longrightarrow> devServer w' = devServer w"
  "prepare_project root w = Inl (err, w') \<Longrightarrow> devServer w' = devServer w"
  by (auto simp: prepare_project_def writeFileSync_def mkdirSync_recursive_def Let_def
      split: if_splits sum.splits dest!: mkdir_each_devServer)

lemma startDevServer_devServer: "devServer (fst (startDevServer w)) = devServer w"
  by (auto simp: startDevServer_def showMessage_def Let_def
      split: list.splits sum.splits prod.splits dest: prepare_project_devServer)

lemma renderPreview_devServer: "devServer (fst (renderPreview e ws p w)) = devServer w"
  using startDevServer_devServer [of w]
  by (auto simp: renderPreview_def Let_def split: option.splits sum.splits prod.splits)

text \<open>
  C7. The claim is that a preview request for a \<open>.tsx\<close>, \<open>.jsx\<close>, \<open>.ts\<close> or \<open>.js\<close>
  path starts the dev server on first use, does nothing to it when it already runs, and
  returns the HTML shell with the iframe. The code tests \<open>devServer\<close> for that, but no
  statement assigns the started process to \<open>devServer\<close>, and the argument \<open>context\<close> of
  the call is not in scope in \<open>renderPreview\<close>. For \<open>/ws/App.js\<close>: with \<open>context\<close>
  unbound the request is answered by an error and no shell; with \<open>context\<close> bound, the
  second request finds \<open>devServer\<close> still \<open>null\<close> and spawns a second process.
\<close>

theorem second_preview_spawns_again:
  "renderPreview example_env 7 ''/ws/App.js'' example_world =
     (example_world, [(7, MError ''Error rendering preview: ReferenceError: context is not defined'')]) \<and>
   (let r1 = renderPreview bound_env 7 ''/ws/App.js'' example_world;
        r2 = renderPreview bound_env 7 ''/ws/App.js'' (fst r1)
    in devServer (fst r1) = None \<and> spawned (fst r1) = [''/ws''] \<and>
       devServer (fst r2) = None \<and> spawned (fst r2) = [''/ws'', ''/ws''] \<and>
       snd r2 = [(7, MDevServerStarted ''http://localhost:3001''),
                 (7, MPreview ''/ws/App.js'' ''App.js'' (react_preview_html ''App.js'' devServerPort))])"
  by (simp add: preview_unbound preview_first preview_second example_devServer Let_def)

section \<open>What one inbound message sends\<close>






























section \<open>The diff of an empty baseline\<close>

text \<open>
  C9. Where the stored baseline of a path is the empty text, \<open>getFileDiff\<close> answers with
  the no-baseline error, the same message it sends where no baseline is stored at all, and
  changes nothing.
\<close>

theorem getFileDiff_empty_baseline:
  assumes "originalFileContents w filePath = Some []"
  shows "getFileDiff ws filePath w =
      (w, [(ws, MError (''Error generating diff: Error: No original content stored for '' @ filePath))]) \<and>
    snd (getFileDiff ws filePath (w\<lparr>originalFileContents := (originalFileContents w)(filePath := None)\<rparr>)) =
      snd (getFileDiff ws filePath w)"
  using assms by (simp add: getFileDiff_def)

text \<open>
  The witness: \<open>example_world\<close> with the empty text stored as the baseline of \<open>/ws/a.txt\<close>.
\<close>

theorem getFileDiff_empty_baseline_witness:
  "originalFileContents (set_original ''/ws/a.txt'' [] example_world) ''/ws/a.txt'' = Some [] \<and>
   getFileDiff 7 ''/ws/a.txt'' (set_original ''/ws/a.txt'' [] example_world) =
     (set_original ''/ws/a.txt'' [] example_world,
      [(7, MError ''Error generating diff: Error: No original content stored for /ws/a.txt'')])"
proof -
  have empty: "originalFileContents (set_original ''/ws/a.txt'' [] example_world) ''/ws/a.txt'' = Some []"
    by (simp add: set_original_def)
  show ?thesis
    using empty getFileDiff_empty_baseline [OF empty, of 7] by simp
qed

section \<open>The test message\<close>

lemma join_test_file: "join ''/ws'' ''test-file.txt'' = ''/ws/test-file.txt''"
  by code_simp

text \<open>
  C10. The router accepts the type \<open>testFileCreation\<close> and hands it to
  \<open>testFileCreation\<close>, which never answers with the unknown-type error. With a workspace
  folder open it writes \<open>test-file.txt\<close> in the first folder with the fixed content,
  whether or not a file of that name exists, and answers with a message of type
  \<open>chat\<close>. (The write is refused only where the path is a directory.)
\<close>

theorem testFileCreation_routed:
  assumes "msg_type data = ''testFileCreation''"
  shows "on_message e ws (Some data) w = Some (testFileCreation e ws w) \<and>
    (ws, MError (''Unknown message type: '' @ msg_type data)) \<notin> set (snd (testFileCreation e ws w)) \<and>
    (\<forall>f fs p. workspaceFolders w = f # fs \<and> p = join (folder_fsPath f) ''test-file.txt'' \<and>
        files w (fsPath p) \<noteq> Some Directory \<longrightarrow>
      testFileCreation e ws w =
        (w\<lparr>files := (files w)(fsPath p \<mapsto> File ''This is a test file created by CodeBanter.'')\<rparr>,
         [(ws, MChat (''Test file created successfully at: '' @ p) None None)]))"
proof (intro conjI allI impI)
  show "on_message e ws (Some data) w = Some (testFileCreation e ws w)"
    using assms by (simp add: on_message_def)
  show "(ws, MError (''Unknown message type: '' @ msg_type data)) \<notin> set (snd (testFileCreation e ws w))"
    using assms by (simp add: testFileCreation_def Let_def split: list.splits option.splits)
  show "testFileCreation e ws w =
        (w\<lparr>files := (files w)(fsPath p \<mapsto> File ''This is a test file created by CodeBanter.'')\<rparr>,
         [(ws, MChat (''Test file created successfully at: '' @ p) None None)])"
    if "workspaceFolders w = f # fs \<and> p = join (folder_fsPath f) ''test-file.txt'' \<and>
        files w (fsPath p) \<noteq> Some Directory" for f fs p
    using that by (auto simp: testFileCreation_def writeFile_def Let_def)
qed

text \<open>
  The witness: \<open>example_world\<close> has no \<open>/ws/test-file.txt\<close>; the message creates it.
\<close>

theorem testFileCreation_routed_witness:
  "msg_type example_test_message = ''testFileCreation'' \<and>
   files example_world (fsPath ''/ws/test-file.txt'') \<noteq> Some Directory \<and>
   on_message example_env 7 (Some example_test_message) example_world =
    Some (example_world\<lparr>files := (files example_world)
            (''/ws/test-file.txt'' \<mapsto> File ''This is a test file created by CodeBanter.'')\<rparr>,
          [(7, MChat ''Test file created successfully at: /ws/test-file.txt'' None None)])"
proof -
  have t: "msg_type example_test_message = ''testFileCreation''"
    by (simp add: example_test_message_def)
  have free: "files example_world (fsPath ''/ws/test-file.txt'') \<noteq> Some Directory"
    by (simp add: example_world_def fsPath_def sep_def)
  have "testFileCreation example_env 7 example_world =
      (example_world\<lparr>files := (files example_world)
          (fsPath ''/ws/test-file.txt'' \<mapsto> File ''This is a test file created by CodeBanter.'')\<rparr>,
       [(7, MChat (''Test file created successfully at: '' @ ''/ws/test-file.txt'') None None)])"
    using testFileCreation_routed [OF t, of example_env 7 example_world] example_folders free
    by (simp add: join_test_file)
  then show ?thesis
    using t free testFileCreation_routed [OF t, of example_env 7 example_world]
    by (simp add: fsPath_def sep_def)
qed

end
